theory Spec2Isabelle
  imports Complex_Main "HOL-Library.Multiset"
begin

section \<open>Values, documents and the document store\<close>

text \<open>
  The two controllers (NFTCollectionController.ts, NFTOwnerController.ts) work on four
  MongoDB collections through the handle \<^verbatim>\<open>this.mongodb\<close>.  The value of a
  JavaScript number is a \<open>real\<close> (a finite double), a string is a \<open>string\<close>, an
  ObjectId is its hexadecimal text.  A field that the code compares both with strings and
  with ObjectIds (\<^verbatim>\<open>NFT.collection\<close>, \<^verbatim>\<open>Activity.collection\<close>) holds a \<open>jsref\<close>: a
  MongoDB equality match never identifies a string with an ObjectId.
\<close>

type_synonym oid = string

datatype jsref = Str string | ObjId oid

record person =
  p_id :: oid
  p_photoUrl :: string
  p_wallet :: string
  p_social :: string
  p_bio :: string
  p_username :: string

record nft =
  n_collection :: jsref
  n_index :: string
  n_owner :: string
  n_price :: real
  n_artURI :: string
  n_name :: string

record activity =
  a_type :: string
  a_from :: string
  a_to :: string
  a_collection :: jsref
  a_nftId :: string
  a_price :: real
  a_date :: real

record nftcollection =
  c_id :: oid
  c_name :: string
  c_contract :: string
  c_creator :: string
  c_creatorEarning :: "real option"
  c_blockchain :: string
  c_isVerified :: bool
  c_isExplicit :: bool
  c_logoUrl :: string
  c_featuredUrl :: string
  c_bannerUrl :: string
  c_description :: string
  c_category :: string
  c_links :: "string list"
  c_platform :: string
  c_properties :: "(string \<times> string) list"
  c_url :: "string option"

text \<open>
  The store: one list of documents per collection, in insertion order, and the counter
  from which \<^verbatim>\<open>insertOne\<close> draws the \<^verbatim>\<open>_id\<close> of a new document.
\<close>

record store =
  tPerson :: "person list"
  tNFT :: "nft list"
  tActivity :: "activity list"
  tNFTCollection :: "nftcollection list"
  next_id :: nat

datatype table = Person | NFT | Activity | NFTCollection

text \<open>The database calls an operation issues, in the order of the source text.\<close>

datatype dbcall = FindOne table | Find table | Count table | Aggregate table | InsertOne table

datatype error = Error string | TypeError string | DriverError string

fun message :: "error \<Rightarrow> string" where
  "message (Error m) = m"
| "message (TypeError m) = m"
| "message (DriverError m) = m"

subsection \<open>Queries\<close>

text \<open>\<^verbatim>\<open>findOne(q)\<close> is the first matching document or null, \<^verbatim>\<open>find(q).toArray()\<close> all
  of them in order, \<^verbatim>\<open>find(q).count()\<close> their number.\<close>

definition findOne :: "('a \<Rightarrow> bool) \<Rightarrow> 'a list \<Rightarrow> 'a option" where
  "findOne q rows = List.find q rows"

definition find_toArray :: "('a \<Rightarrow> bool) \<Rightarrow> 'a list \<Rightarrow> 'a list" where
  "find_toArray q rows = filter q rows"

definition find_count :: "('a \<Rightarrow> bool) \<Rightarrow> 'a list \<Rightarrow> nat" where
  "find_count q rows = length (filter q rows)"

text \<open>\<^verbatim>\<open>Array.prototype.indexOf\<close>: the first position of the element, or -1.\<close>

fun indexOf_from :: "int \<Rightarrow> 'a list \<Rightarrow> 'a \<Rightarrow> int" where
  "indexOf_from i [] x = -1"
| "indexOf_from i (y # ys) x = (if y = x then i else indexOf_from (i + 1) ys x)"

definition indexOf :: "'a list \<Rightarrow> 'a \<Rightarrow> int" where
  "indexOf xs x = indexOf_from 0 xs x"

text \<open>A 24-digit hexadecimal rendering of the id counter: the text of a generated ObjectId.\<close>

definition hexdigit :: "nat \<Rightarrow> char" where
  "hexdigit d = ''0123456789abcdef'' ! (d mod 16)"

fun hex_width :: "nat \<Rightarrow> nat \<Rightarrow> string" where
  "hex_width 0 n = []"
| "hex_width (Suc k) n = hex_width k (n div 16) @ [hexdigit n]"

definition mk_oid :: "nat \<Rightarrow> oid" where
  "mk_oid n = hex_width 24 n"

section \<open>Numbers and the clock\<close>

text \<open>
  The values of JavaScript numbers are reals (the finite doubles).  Comparisons of doubles
  are exact, but \<^verbatim>\<open>+\<close>, \<^verbatim>\<open>/\<close> and \<^verbatim>\<open>*\<close> round: the three operations of the host are the
  parameter \<open>ops\<close> of every function that computes with numbers.  \<open>exact\<close> is the
  arithmetic without rounding, which agrees with the doubles wherever the exact result is
  a double.
\<close>

record float64 =
  fadd :: "real \<Rightarrow> real \<Rightarrow> real"
  fdiv :: "real \<Rightarrow> real \<Rightarrow> real"
  fmul :: "real \<Rightarrow> real \<Rightarrow> real"

definition exact :: float64 where
  "exact = \<lparr>fadd = (\<lambda>x y. x + y), fdiv = (\<lambda>x y. x / y), fmul = (\<lambda>x y. x * y)\<rparr>"

text \<open>
  \<^verbatim>\<open>new Date()\<close> is the parameter \<open>now\<close> of every operation that reads the clock:
  \<open>getTime now\<close> is \<^verbatim>\<open>todayDate.getTime()\<close>, the milliseconds since the epoch, and
  \<open>setDateBack now k\<close> is \<^verbatim>\<open>d.getTime()\<close> of the copy \<^verbatim>\<open>d\<close> after
  \<^verbatim>\<open>d.setDate(d.getDate() - k)\<close>: the same local wall-clock time \<open>k\<close> calendar days
  earlier.  That is \<open>k * 86400000\<close> ms earlier in a zone whose clock did not change in
  between, and an hour more or less across a daylight-saving change.
\<close>

record clock =
  getTime :: int
  setDateBack :: "int \<Rightarrow> int"

section \<open>The 24-hour trade values\<close>

text \<open>The body of \<^verbatim>\<open>soldList.forEach\<close>; the accumulator is (yesterDayTrade, todayTrade).\<close>

definition addTrade ::
  "float64 \<Rightarrow> int \<Rightarrow> int \<Rightarrow> activity \<Rightarrow> real \<times> real \<Rightarrow> real \<times> real" where
  "addTrade ops yesterdayDate dayBeforeDate sold acc =
     (case acc of (yesterDayTrade, todayTrade) \<Rightarrow>
        if a_date sold > fdiv ops (real_of_int yesterdayDate) 1000
          then (yesterDayTrade, fadd ops todayTrade (a_price sold))
        else if a_date sold > fdiv ops (real_of_int dayBeforeDate) 1000
          then (fadd ops yesterDayTrade (a_price sold), todayTrade)
        else (yesterDayTrade, todayTrade))"

definition trades :: "float64 \<Rightarrow> clock \<Rightarrow> activity list \<Rightarrow> real \<times> real" where
  "trades ops now soldList =
     fold (addTrade ops (setDateBack now 1) (setDateBack now 2)) soldList (0, 0)"

definition percent24h :: "float64 \<Rightarrow> real \<times> real \<Rightarrow> real" where
  "percent24h ops t =
     (case t of (yesterDayTrade, todayTrade) \<Rightarrow>
        if todayTrade = 0 then 0
        else if yesterDayTrade = 0 then 100
        else fmul ops (fdiv ops todayTrade yesterDayTrade) 100)"

record h24 =
  h_24h :: real
  todayTrade :: real

definition get24HValues :: "float64 \<Rightarrow> store \<Rightarrow> clock \<Rightarrow> string \<Rightarrow> h24" where
  "get24HValues ops s now address =
     (let soldList = find_toArray (\<lambda>a. a_collection a = Str address) (tActivity s);
          t = trades ops now soldList
      in \<lparr>h_24h = percent24h ops t, todayTrade = snd t\<rparr>)"

text \<open>
  The two windows and their sums, for the statements below.  A window is given by its
  boundaries in unix seconds: today is after \<open>b1\<close>, yesterday is after \<open>b2\<close> and not
  after \<open>b1\<close>.  \<open>boundary ops now k\<close> is the boundary the code compares with,
  \<^verbatim>\<open>d.getTime() / 1000\<close> for the date \<open>k\<close> calendar days back.  The sum of a window is
  the running sum of its prices in row order, from 0.
\<close>

definition boundary :: "float64 \<Rightarrow> clock \<Rightarrow> int \<Rightarrow> real" where
  "boundary ops now k = fdiv ops (real_of_int (setDateBack now k)) 1000"

definition todayRows :: "real \<Rightarrow> activity list \<Rightarrow> activity list" where
  "todayRows b1 rows = filter (\<lambda>a. a_date a > b1) rows"

definition yesterdayRows :: "real \<Rightarrow> real \<Rightarrow> activity list \<Rightarrow> activity list" where
  "yesterdayRows b1 b2 rows = filter (\<lambda>a. \<not> a_date a > b1 \<and> a_date a > b2) rows"

definition runningSum :: "float64 \<Rightarrow> real \<Rightarrow> activity list \<Rightarrow> real" where
  "runningSum ops start rows = fold (\<lambda>a acc. fadd ops acc (a_price a)) rows start"

definition priceSum :: "float64 \<Rightarrow> activity list \<Rightarrow> real" where
  "priceSum ops rows = runningSum ops 0 rows"

definition sale :: "string \<Rightarrow> real \<Rightarrow> real \<Rightarrow> activity" where
  "sale address date price =
     \<lparr>a_type = ''Sold'', a_from = ''0xA'', a_to = ''0xB'', a_collection = Str address,
      a_nftId = ''1'', a_price = price, a_date = date\<rparr>"

section \<open>The response envelope\<close>

record person_info =
  v_id :: oid
  v_photoUrl :: string
  v_wallet :: string
  v_username :: string
  v_bio :: string
  v_social :: string
  v_nfts :: nat
  v_collections :: nat

text \<open>The object literal that \<^verbatim>\<open>getCollections\<close> and \<^verbatim>\<open>getTopCollections\<close> return per row.\<close>

record collection_row =
  r_id :: oid
  r_logoUrl :: string
  r_featuredUrl :: string
  r_bannerUrl :: string
  r_contract :: string
  r_creator :: string
  r_creatorDetail :: "person option"
  r_url :: "string option"
  r_description :: string
  r_category :: string
  r_links :: "string list"
  r_name :: string
  r_blockchain :: string
  r_volume :: real
  r_24h :: real
  r_24hPercent :: real
  r_floorPrice :: real
  r_owners :: nat
  r_items :: nat
  r_isVerified :: bool
  r_isExplicit :: bool
  r_properties :: "(string \<times> string) list"
  r_platform :: string

text \<open>\<^verbatim>\<open>{...collection, volume, _24h, floorPrice, owners, items, creatorDetail}\<close> of
  \<^verbatim>\<open>getOwnerCollection\<close>; \<open>None\<close> is the empty object that spreading null gives.\<close>

record owner_collection_row =
  oc_collection :: nftcollection
  oc_volume :: real
  oc_24h :: real
  oc_floorPrice :: real
  oc_owners :: nat
  oc_items :: nat
  oc_creatorDetail :: "person option"

text \<open>\<^verbatim>\<open>{...item, nft: {artUri, name}, collection: {...coll}}\<close> of \<^verbatim>\<open>getOwnerHistory\<close>.\<close>

record history_row =
  hr_item :: activity
  hr_nft :: "string \<times> string"
  hr_collection :: "nftcollection option"

text \<open>The collection document as \<^verbatim>\<open>getCollectionDetail\<close> extends it.\<close>

record collection_detail =
  d_collection :: nftcollection
  d_activities :: "activity list"
  d_nfts :: "nft list"
  d_floorPrice :: real
  d_totalVolume :: real
  d_owners :: nat
  d_items :: nat
  d_24h :: real
  d_24hPercent :: real
  d_creatorDetail :: "person option"

datatype payload =
    Message string
  | Collections "collection_row list"
  | OwnerCollections "owner_collection_row list"
  | PersonInfo person_info
  | NewCollection nftcollection person
  | Activities "history_row list"
  | CollectionDetail collection_detail

record response =
  payload :: payload
  isError :: bool
  code :: nat

text \<open>Modelled from the spec: \<^verbatim>\<open>respond\<close> of util/respond is not among the sources.  The
  spec gives \<^verbatim>\<open>respond(payload, isError = false, httpStatusCode = 200)\<close>, an envelope that
  carries the payload or error message, the error flag and the status code.\<close>

definition respond :: "payload \<Rightarrow> bool \<Rightarrow> nat \<Rightarrow> response" where
  "respond p e c = \<lparr>payload = p, isError = e, code = c\<rparr>"

datatype outcome = Returned response | Threw error

text \<open>What an operation does: what it returns or throws, the store behind the handle
  afterwards, and the database calls it made.\<close>

type_synonym run = "outcome \<times> store option \<times> dbcall list"

text \<open>\<^verbatim>\<open>catch (error) { return respond(error.message, true, 500); }\<close>\<close>

definition caught :: "error \<Rightarrow> outcome" where
  "caught e = Returned (respond (Message (message e)) True 500)"

definition notConnected :: error where
  "notConnected = Error ''Could not connect to the database.''"

text \<open>Reading \<^verbatim>\<open>this.mongodb.collection\<close> while the handle is undefined.\<close>

definition undefinedHandle :: error where
  "undefinedHandle = TypeError ''Cannot read properties of undefined (reading 'collection')''"

section \<open>Aggregations\<close>

text \<open>
  An aggregation stage maps the rows to rows or fails.  \<^verbatim>\<open>parseFilters\<close> (of the
  AbstractEntity base class, not among the sources) is a parameter of the operations that
  call it: it translates a filter specification into stages.  The collection controller
  starts from \<^verbatim>\<open>{} as any\<close>, which is not an array; what the driver does with it is the
  parameter \<open>aggregateObject\<close>.
\<close>

type_synonym 'r stage = "'r list \<Rightarrow> error + 'r list"

datatype 'r aggregation = EmptyObject | Stages "'r stage list"

definition match :: "('r \<Rightarrow> bool) \<Rightarrow> 'r stage" where
  "match q rows = Inr (filter q rows)"

fun run_stages :: "'r stage list \<Rightarrow> 'r list \<Rightarrow> error + 'r list" where
  "run_stages [] rows = Inr rows"
| "run_stages (st # sts) rows =
     (case st rows of Inl e \<Rightarrow> Inl e | Inr rows' \<Rightarrow> run_stages sts rows')"

fun aggregate :: "('r list \<Rightarrow> error + 'r list) \<Rightarrow> 'r aggregation \<Rightarrow> 'r list \<Rightarrow> error + 'r list" where
  "aggregate aggregateObject EmptyObject rows = aggregateObject rows"
| "aggregate aggregateObject (Stages sts) rows = run_stages sts rows"

text \<open>\<^verbatim>\<open>if (result)\<close> on the array of \<^verbatim>\<open>toArray()\<close>: every array is truthy, the empty one
  too.\<close>

definition truthy_array :: "'a list \<Rightarrow> bool" where
  "truthy_array xs = True"

section \<open>Volume, floor price and owners of a collection\<close>

text \<open>The body of \<^verbatim>\<open>nfts.forEach\<close>; the accumulator is (volume, floorPrice, owners).\<close>

definition tally ::
  "float64 \<Rightarrow> nft \<Rightarrow> real \<times> real \<times> string list \<Rightarrow> real \<times> real \<times> string list" where
  "tally ops nft acc =
     (case acc of (volume, floorPrice, owners) \<Rightarrow>
        (fadd ops volume (n_price nft),
         if floorPrice > n_price nft then n_price nft else floorPrice,
         if indexOf owners (n_owner nft) = -1 then owners @ [n_owner nft] else owners))"

text \<open>\<^verbatim>\<open>Number.MAX_VALUE\<close>, the largest finite double.\<close>

definition MAX_VALUE :: real where
  "MAX_VALUE = 2 ^ 1024 - 2 ^ 971"

section \<open>NFTCollectionController\<close>

definition collectionRow ::
  "float64 \<Rightarrow> store \<Rightarrow> clock \<Rightarrow> nftcollection \<Rightarrow> collection_row" where
  "collectionRow ops s now collection =
     (let nfts = find_toArray (\<lambda>n. n_collection n = Str (c_contract collection)) (tNFT s);
          (volume, floorPrice, owners) = fold (tally ops) nfts (0, 0, []);
          h = get24HValues ops s now (c_contract collection);
          creator = findOne (\<lambda>p. p_wallet p = c_creator collection) (tPerson s)
      in \<lparr>r_id = c_id collection,
          r_logoUrl = c_logoUrl collection,
          r_featuredUrl = c_featuredUrl collection,
          r_bannerUrl = c_bannerUrl collection,
          r_contract = c_contract collection,
          r_creator = c_creator collection,
          r_creatorDetail = creator,
          r_url = c_url collection,
          r_description = c_description collection,
          r_category = c_category collection,
          r_links = c_links collection,
          r_name = c_name collection,
          r_blockchain = c_blockchain collection,
          r_volume = volume,
          r_24h = todayTrade h,
          r_24hPercent = h_24h h,
          r_floorPrice = floorPrice,
          r_owners = length owners,
          r_items = length nfts,
          r_isVerified = c_isVerified collection,
          r_isExplicit = c_isExplicit collection,
          r_properties = c_properties collection,
          r_platform = c_platform collection\<rparr>)"

text \<open>The database calls of one row's enrichment.\<close>

definition rowCalls :: "dbcall list" where
  "rowCalls = [Find NFT, Find Activity, FindOne Person]"

definition collectionAggregation ::
  "('f \<Rightarrow> nftcollection stage list) \<Rightarrow> 'f option \<Rightarrow> nftcollection aggregation" where
  "collectionAggregation parseFilters filters =
     (case filters of None \<Rightarrow> EmptyObject | Some f \<Rightarrow> Stages (parseFilters f))"

definition getCollections ::
  "('f \<Rightarrow> nftcollection stage list) \<Rightarrow> (nftcollection list \<Rightarrow> error + nftcollection list) \<Rightarrow>
   float64 \<Rightarrow> clock \<Rightarrow> store option \<Rightarrow> 'f option \<Rightarrow> run" where
  "getCollections parseFilters aggregateObject ops now mongodb filters =
     (case mongodb of
        None \<Rightarrow> (caught notConnected, None, [])
      | Some s \<Rightarrow>
          (case aggregate aggregateObject (collectionAggregation parseFilters filters)
                  (tNFTCollection s) of
             Inl error \<Rightarrow> (caught error, Some s, [Aggregate NFTCollection])
           | Inr result \<Rightarrow>
               if truthy_array result then
                 (Returned (respond (Collections (map (collectionRow ops s now) result)) False 200),
                  Some s, Aggregate NFTCollection # concat (map (\<lambda>c. rowCalls) result))
               else
                 (Returned (respond (Message ''collection not found.'') True 422),
                  Some s, [Aggregate NFTCollection])))"

text \<open>\<^verbatim>\<open>Array.prototype.sort\<close> with a comparator is a stable sort: an element goes before
  the first one that the comparator does not put ahead of it.\<close>

fun insert_cmp :: "('a \<Rightarrow> 'a \<Rightarrow> real) \<Rightarrow> 'a \<Rightarrow> 'a list \<Rightarrow> 'a list" where
  "insert_cmp cmp x [] = [x]"
| "insert_cmp cmp x (y # ys) =
     (if cmp x y \<le> 0 then x # y # ys else y # insert_cmp cmp x ys)"

definition array_sort :: "('a \<Rightarrow> 'a \<Rightarrow> real) \<Rightarrow> 'a list \<Rightarrow> 'a list" where
  "array_sort cmp xs = foldr (insert_cmp cmp) xs []"

text \<open>The comparator \<^verbatim>\<open>(item1, item2) => item2.volume - item1.volume\<close>.  The sort reads
  its sign only, and the difference of two finite doubles has the sign of their exact
  difference.\<close>

definition byVolumeDesc :: "collection_row \<Rightarrow> collection_row \<Rightarrow> real" where
  "byVolumeDesc item1 item2 = r_volume item2 - r_volume item1"

definition slice0 :: "nat \<Rightarrow> 'a list \<Rightarrow> 'a list" where
  "slice0 n xs = take n xs"

definition getTopCollections ::
  "('f \<Rightarrow> nftcollection stage list) \<Rightarrow> (nftcollection list \<Rightarrow> error + nftcollection list) \<Rightarrow>
   float64 \<Rightarrow> clock \<Rightarrow> store option \<Rightarrow> 'f option \<Rightarrow> run" where
  "getTopCollections parseFilters aggregateObject ops now mongodb filters =
     (case mongodb of
        None \<Rightarrow> (caught notConnected, None, [])
      | Some s \<Rightarrow>
          (case aggregate aggregateObject (collectionAggregation parseFilters filters)
                  (tNFTCollection s) of
             Inl error \<Rightarrow> (caught error, Some s, [Aggregate NFTCollection])
           | Inr result \<Rightarrow>
               if truthy_array result then
                 (let collections = map (collectionRow ops s now) result
                  in (Returned (respond
                        (Collections (slice0 10 (array_sort byVolumeDesc collections))) False 200),
                      Some s, Aggregate NFTCollection # concat (map (\<lambda>c. rowCalls) result)))
               else
                 (Returned (respond (Message ''collection not found.'') True 422),
                  Some s, [Aggregate NFTCollection])))"

section \<open>NFTOwnerController\<close>

definition ownerCollectionRow ::
  "float64 \<Rightarrow> store \<Rightarrow> clock \<Rightarrow> nftcollection \<Rightarrow> owner_collection_row" where
  "ownerCollectionRow ops s now collection =
     (let nfts = find_toArray (\<lambda>n. n_collection n = ObjId (c_id collection)) (tNFT s);
          personInfo = findOne (\<lambda>p. p_wallet p = c_creator collection) (tPerson s);
          (volume, floorPrice, owners) = fold (tally ops) nfts (0, MAX_VALUE, []);
          soldList = find_toArray (\<lambda>a. a_collection a = ObjId (c_id collection)) (tActivity s);
          t = trades ops now soldList
      in \<lparr>oc_collection = collection,
          oc_volume = volume,
          oc_24h = percent24h ops t,
          oc_floorPrice = floorPrice,
          oc_owners = length owners,
          oc_items = length nfts,
          oc_creatorDetail = personInfo\<rparr>)"

definition ownerRowCalls :: "dbcall list" where
  "ownerRowCalls = [Find NFT, FindOne Person, Find Activity]"

text \<open>The owner controller starts from \<^verbatim>\<open>[] as any\<close> and pushes its own \<^verbatim>\<open>$match\<close> last.\<close>

definition ownerAggregation :: "('f \<Rightarrow> 'r stage list) \<Rightarrow> 'f option \<Rightarrow> ('r \<Rightarrow> bool) \<Rightarrow> 'r stage list" where
  "ownerAggregation parseFilters filters query =
     (case filters of None \<Rightarrow> [] @ [match query] | Some f \<Rightarrow> parseFilters f @ [match query])"

definition getOwnerCollection ::
  "('f \<Rightarrow> nftcollection stage list) \<Rightarrow> float64 \<Rightarrow> clock \<Rightarrow> store option \<Rightarrow> string \<Rightarrow>
   'f option \<Rightarrow> run" where
  "getOwnerCollection parseFilters ops now mongodb ownerId filters =
     (case mongodb of
        None \<Rightarrow> (caught notConnected, None, [])
      | Some s \<Rightarrow>
          (case run_stages (ownerAggregation parseFilters filters (\<lambda>c. c_creator c = ownerId))
                  (tNFTCollection s) of
             Inl error \<Rightarrow> (caught error, Some s, [Aggregate NFTCollection])
           | Inr result \<Rightarrow>
               if truthy_array result then
                 (Returned (respond (OwnerCollections (map (ownerCollectionRow ops s now) result))
                    False 200),
                  Some s, Aggregate NFTCollection # concat (map (\<lambda>c. ownerRowCalls) result))
               else
                 (Returned (respond (Message ''collection not found.'') True 422),
                  Some s, [Aggregate NFTCollection])))"

text \<open>\<^verbatim>\<open>insertOne\<close>: the driver gives the document its \<^verbatim>\<open>_id\<close>, appends it and returns the
  result object, which holds \<^verbatim>\<open>insertedId\<close> (\<open>None\<close> would be a falsy result).\<close>

definition insertOne_Person :: "(oid \<Rightarrow> person) \<Rightarrow> store \<Rightarrow> oid option \<times> store" where
  "insertOne_Person doc s =
     (let insertedId = mk_oid (next_id s)
      in (Some insertedId,
          s\<lparr>tPerson := tPerson s @ [doc insertedId], next_id := next_id s + 1\<rparr>))"

definition insertOne_NFTCollection ::
  "(oid \<Rightarrow> nftcollection) \<Rightarrow> store \<Rightarrow> oid option \<times> store" where
  "insertOne_NFTCollection doc s =
     (let insertedId = mk_oid (next_id s)
      in (Some insertedId,
          s\<lparr>tNFTCollection := tNFTCollection s @ [doc insertedId], next_id := next_id s + 1\<rparr>))"

definition personInfo :: "person \<Rightarrow> nat \<Rightarrow> nat \<Rightarrow> person_info" where
  "personInfo result ntfs colls =
     \<lparr>v_id = p_id result,
      v_photoUrl = p_photoUrl result,
      v_wallet = p_wallet result,
      v_username = p_username result,
      v_bio = p_bio result,
      v_social = p_social result,
      v_nfts = ntfs,
      v_collections = colls\<rparr>"

definition blankPerson :: "string \<Rightarrow> oid \<Rightarrow> person" where
  "blankPerson personId i =
     \<lparr>p_id = i, p_photoUrl = '''', p_wallet = personId, p_social = '''', p_bio = '''',
      p_username = ''''\<rparr>"

definition nullResult :: error where
  "nullResult = TypeError ''Cannot read properties of null (reading '_id')''"

definition findPerson :: "store option \<Rightarrow> string \<Rightarrow> run" where
  "findPerson mongodb personId =
     (case mongodb of
        None \<Rightarrow> (Threw undefinedHandle, None, [])
      | Some s \<Rightarrow>
          (let query = (\<lambda>p. p_wallet p = personId);
               result = findOne query (tPerson s);
               ntfs = find_count (\<lambda>n. n_owner n = personId) (tNFT s);
               colls = find_count (\<lambda>c. c_creator c = personId) (tNFTCollection s)
           in case result of
                Some result \<Rightarrow>
                  (Returned (respond (PersonInfo (personInfo result ntfs colls)) False 200),
                   Some s, [FindOne Person, Count NFT, Count NFTCollection])
              | None \<Rightarrow>
                  (let (inserted, s') = insertOne_Person (blankPerson personId) s
                   in case findOne query (tPerson s') of
                        None \<Rightarrow>
                          (Threw nullResult, Some s',
                           [FindOne Person, Count NFT, Count NFTCollection, InsertOne Person,
                            FindOne Person])
                      | Some result \<Rightarrow>
                          (Returned (respond (PersonInfo (personInfo result 0 0)) False 200),
                           Some s',
                           [FindOne Person, Count NFT, Count NFTCollection, InsertOne Person,
                            FindOne Person]))))"

text \<open>A stored document always has its \<^verbatim>\<open>_id\<close>, so \<^verbatim>\<open>findOwner && findOwner._id\<close> holds
  exactly when a document was found.\<close>

definition createOwner ::
  "store option \<Rightarrow> string \<Rightarrow> string \<Rightarrow> string \<Rightarrow> string \<Rightarrow> string \<Rightarrow> run" where
  "createOwner mongodb photoUrl wallet bio username social =
     (case mongodb of
        None \<Rightarrow> (Threw undefinedHandle, None, [])
      | Some s \<Rightarrow>
          (case findOne (\<lambda>p. p_wallet p = wallet) (tPerson s) of
             Some findOwner \<Rightarrow>
               (Returned (respond (Message ''Current user has been created'') True 501),
                Some s, [FindOne Person])
           | None \<Rightarrow>
               (let person = (\<lambda>i. \<lparr>p_id = i, p_photoUrl = photoUrl, p_wallet = wallet,
                                    p_social = social, p_bio = bio, p_username = username\<rparr>);
                    (result, s') = insertOne_Person person s
                in (case result of
                      Some insertedId \<Rightarrow>
                        Returned (respond
                          (Message (''Successfully created a new owner with id '' @ insertedId))
                          False 201)
                    | None \<Rightarrow>
                        Returned (respond (Message ''Failed to create a new owner.'') True 501),
                    Some s', [FindOne Person, InsertOne Person]))))"

text \<open>
  \<^verbatim>\<open>new ObjectId(x)\<close> throws on a string that is not an id; the parse is the parameter
  \<open>ObjectId\<close> of the operations that build one.  Given an ObjectId it returns it.
\<close>

fun newObjectId :: "(string \<Rightarrow> error + oid) \<Rightarrow> jsref \<Rightarrow> error + oid" where
  "newObjectId ObjectId (Str x) = ObjectId x"
| "newObjectId ObjectId (ObjId i) = Inr i"

definition nullNft :: error where
  "nullNft = TypeError ''Cannot read properties of null (reading 'artURI')''"

text \<open>
  One row of the history.  A row that fails carries the number of database replies it has
  awaited when it throws: one when \<^verbatim>\<open>new ObjectId\<close> throws (after the NFT lookup), two
  when the NFT is null (after the collection lookup as well).
\<close>

definition historyRow ::
  "(string \<Rightarrow> error + oid) \<Rightarrow> store \<Rightarrow> activity \<Rightarrow> (nat \<times> error) + history_row" where
  "historyRow ObjectId s item =
     (let nfts = findOne (\<lambda>n. n_collection n = a_collection item \<and> n_index n = a_nftId item)
                   (tNFT s)
      in case newObjectId ObjectId (a_collection item) of
           Inl e \<Rightarrow> Inl (1, e)
         | Inr i \<Rightarrow>
             (let coll = findOne (\<lambda>c. c_id c = i) (tNFTCollection s)
              in case nfts of
                   None \<Rightarrow> Inl (2, nullNft)
                 | Some nfts \<Rightarrow>
                     Inr \<lparr>hr_item = item, hr_nft = (n_artURI nfts, n_name nfts),
                          hr_collection = coll\<rparr>))"

definition historyCalls :: "(string \<Rightarrow> error + oid) \<Rightarrow> activity \<Rightarrow> dbcall list" where
  "historyCalls ObjectId item =
     (case newObjectId ObjectId (a_collection item) of
        Inl e \<Rightarrow> [FindOne NFT]
      | Inr i \<Rightarrow> [FindOne NFT, FindOne NFTCollection])"

text \<open>
  \<^verbatim>\<open>Promise.all\<close>: all the results, or the rejection that comes first in time.  The
  replies of the database are taken to arrive in the order of their requests, so a row
  that throws after fewer replies rejects before one that throws after more, and of two
  rows that throw after as many replies the earlier row rejects first.
\<close>

fun failures :: "('e + 'a) list \<Rightarrow> 'e list" where
  "failures [] = []"
| "failures (Inl e # rs) = e # failures rs"
| "failures (Inr x # rs) = failures rs"

fun results :: "('e + 'a) list \<Rightarrow> 'a list" where
  "results [] = []"
| "results (Inl e # rs) = results rs"
| "results (Inr x # rs) = x # results rs"

fun earliest :: "nat \<times> error \<Rightarrow> (nat \<times> error) list \<Rightarrow> nat \<times> error" where
  "earliest f [] = f"
| "earliest f (g # gs) = earliest (if fst g < fst f then g else f) gs"

definition promise_all :: "((nat \<times> error) + 'a) list \<Rightarrow> error + 'a list" where
  "promise_all rs =
     (case failures rs of
        [] \<Rightarrow> Inr (results rs)
      | f # fs \<Rightarrow> Inl (snd (earliest f fs)))"

definition getOwnerHistory ::
  "('f \<Rightarrow> activity stage list) \<Rightarrow> (string \<Rightarrow> error + oid) \<Rightarrow> store option \<Rightarrow> string \<Rightarrow>
   'f option \<Rightarrow> run" where
  "getOwnerHistory parseFilters ObjectId mongodb ownerId filters =
     (case mongodb of
        None \<Rightarrow> (caught notConnected, None, [])
      | Some s \<Rightarrow>
          (case run_stages
                  (ownerAggregation parseFilters filters
                     (\<lambda>a. a_from a = ownerId \<or> a_to a = ownerId))
                  (tActivity s) of
             Inl error \<Rightarrow> (caught error, Some s, [Aggregate Activity])
           | Inr result \<Rightarrow>
               if truthy_array result then
                 (case promise_all (map (historyRow ObjectId s) result) of
                    Inl error \<Rightarrow> caught error
                  | Inr resActivities \<Rightarrow> Returned (respond (Activities resActivities) False 200),
                  Some s, Aggregate Activity # concat (map (historyCalls ObjectId) result))
               else
                 (Returned (respond (Message ''Activities not found.'') True 422),
                  Some s, [Aggregate Activity])))"

definition insertFavourite ::
  "(string \<Rightarrow> error + oid) \<Rightarrow> store option \<Rightarrow> string \<Rightarrow> string \<Rightarrow> string \<Rightarrow> run" where
  "insertFavourite ObjectId mongodb ownerId collectionId nftId =
     (case mongodb of
        None \<Rightarrow> (Threw undefinedHandle, None, [])
      | Some s \<Rightarrow>
          (case ObjectId collectionId of
             Inl e \<Rightarrow> (Threw e, Some s, [])
           | Inr i \<Rightarrow>
               (case findOne (\<lambda>c. c_id c = i) (tNFTCollection s) of
                  None \<Rightarrow>
                    (Returned (respond (Message ''collection not found'') True 501),
                     Some s, [FindOne NFTCollection])
                | Some collection \<Rightarrow>
                    (case findOne (\<lambda>n. n_collection n = Str collectionId \<and> n_index n = nftId)
                            (tNFT s) of
                       None \<Rightarrow>
                         (Returned (respond (Message ''Nft not found'') True 501),
                          Some s, [FindOne NFTCollection, FindOne NFT])
                     | Some nftResult \<Rightarrow>
                         (case findOne (\<lambda>p. p_wallet p = ownerId) (tPerson s) of
                            None \<Rightarrow>
                              (Returned (respond (Message ''to onwer not found.'') True 422),
                               Some s, [FindOne NFTCollection, FindOne NFT, FindOne Person])
                          | Some owner \<Rightarrow>
                              (Returned (respond (Message ''This NFT already favourite'') False 200),
                               Some s, [FindOne NFTCollection, FindOne NFT, FindOne Person]))))))"

definition removeFavourite ::
  "(string \<Rightarrow> error + oid) \<Rightarrow> store option \<Rightarrow> string \<Rightarrow> string \<Rightarrow> string \<Rightarrow> run" where
  "removeFavourite ObjectId mongodb ownerId collectionId nftId =
     (case mongodb of
        None \<Rightarrow> (Threw undefinedHandle, None, [])
      | Some s \<Rightarrow>
          (case ObjectId collectionId of
             Inl e \<Rightarrow> (Threw e, Some s, [])
           | Inr i \<Rightarrow>
               (case findOne (\<lambda>c. c_id c = i) (tNFTCollection s) of
                  None \<Rightarrow>
                    (Returned (respond (Message ''collection not found'') True 501),
                     Some s, [FindOne NFTCollection])
                | Some collection \<Rightarrow>
                    (case findOne (\<lambda>n. n_collection n = Str collectionId \<and> n_index n = nftId)
                            (tNFT s) of
                       None \<Rightarrow>
                         (Returned (respond (Message ''Nft not found'') True 501),
                          Some s, [FindOne NFTCollection, FindOne NFT])
                     | Some nftResult \<Rightarrow>
                         (case findOne (\<lambda>p. p_wallet p = ownerId) (tPerson s) of
                            None \<Rightarrow>
                              (Returned (respond (Message ''to onwer not found.'') True 422),
                               Some s, [FindOne NFTCollection, FindOne NFT, FindOne Person])
                          | Some owner \<Rightarrow>
                              (Returned (respond (Message ''Favourite removed'') False 200),
                               Some s, [FindOne NFTCollection, FindOne NFT, FindOne Person]))))))"

section \<open>Collection creation and detail\<close>

text \<open>The arguments of \<^verbatim>\<open>createCollection\<close>; \<open>None\<close> is an argument that is undefined or
  null.\<close>

record collection_input =
  i_logoFile :: "string option"
  i_featuredImgFile :: "string option"
  i_bannerImgFile :: "string option"
  i_name :: "string option"
  i_description :: "string option"
  i_category :: "string option"
  i_siteUrl :: "string option"
  i_discordUrl :: "string option"
  i_instagramUrl :: "string option"
  i_mediumUrl :: "string option"
  i_telegramUrl :: "string option"
  i_creatorEarning :: "real option"
  i_blockchain :: "string option"
  i_isExplicit :: "bool option"
  i_creatorId :: string

text \<open>\<^verbatim>\<open>x == '' || !x\<close>\<close>

definition missing :: "string option \<Rightarrow> bool" where
  "missing x = (x = Some '''' \<or> x = None)"

text \<open>\<^verbatim>\<open>x ?? d\<close>\<close>

definition orElse :: "'a option \<Rightarrow> 'a \<Rightarrow> 'a" where
  "orElse x d = (case x of None \<Rightarrow> d | Some v \<Rightarrow> v)"

text \<open>\<^verbatim>\<open>if (file) url = await uploadImage(file)\<close>, the url being \<^verbatim>\<open>''\<close> before.
  \<^verbatim>\<open>uploadImage\<close> (util/morailsHelper, not among the sources) is a parameter: it gives the
  url or throws.\<close>

definition uploadOptional :: "(string \<Rightarrow> error + string) \<Rightarrow> string option \<Rightarrow> error + string" where
  "uploadOptional uploadImage file =
     (if missing file then Inr '''' else uploadImage (orElse file ''''))"

definition contractOf :: "string option \<Rightarrow> string" where
  "contractOf blockchain =
     (if blockchain = Some ''ERC721'' then ''0x8113901EEd7d41Db3c9D327484be1870605e4144''
      else if blockchain = Some ''ERC1155'' then ''0xaf8fC965cF9572e5178ae95733b1631440e7f5C8''
      else '''')"

definition newCollection ::
  "collection_input \<Rightarrow> person \<Rightarrow> string \<Rightarrow> string \<Rightarrow> string \<Rightarrow> oid \<Rightarrow> nftcollection" where
  "newCollection a creator logoUrl featureUrl bannerUrl i =
     \<lparr>c_id = i,
      c_name = orElse (i_name a) '''',
      c_contract = contractOf (i_blockchain a),
      c_creator = p_wallet creator,
      c_creatorEarning = i_creatorEarning a,
      c_blockchain = orElse (i_blockchain a) '''',
      c_isVerified = False,
      c_isExplicit = orElse (i_isExplicit a) False,
      c_logoUrl = logoUrl,
      c_featuredUrl = featureUrl,
      c_bannerUrl = bannerUrl,
      c_description = orElse (i_description a) '''',
      c_category = orElse (i_category a) '''',
      c_links = [orElse (i_siteUrl a) '''', orElse (i_discordUrl a) '''',
                 orElse (i_instagramUrl a) '''', orElse (i_mediumUrl a) '''',
                 orElse (i_telegramUrl a) ''''],
      c_platform = ''Unknown'',
      c_properties = [],
      c_url = None\<rparr>"

definition createCollection ::
  "(string \<Rightarrow> error + oid) \<Rightarrow> (string \<Rightarrow> error + string) \<Rightarrow> store option \<Rightarrow>
   collection_input \<Rightarrow> run" where
  "createCollection ObjectId uploadImage mongodb a =
     (case mongodb of
        None \<Rightarrow> (Threw undefinedHandle, None, [])
      | Some s \<Rightarrow>
          (case ObjectId (i_creatorId a) of
             Inl e \<Rightarrow> (caught e, Some s, [])
           | Inr i \<Rightarrow>
               (case findOne (\<lambda>p. p_id p = i) (tPerson s) of
                  None \<Rightarrow>
                    (caught (Error ''creator address is invalid or missing''), Some s,
                     [FindOne Person])
                | Some creator \<Rightarrow>
                    if missing (i_logoFile a) then
                      (caught (Error ''logoUrl is invalid or missing''), Some s, [FindOne Person])
                    else if missing (i_name a) then
                      (caught (Error ''name is invalid or missing''), Some s, [FindOne Person])
                    else if missing (i_blockchain a) then
                      (caught (Error ''blockchain is invalid or missing''), Some s,
                       [FindOne Person])
                    else if missing (i_category a) then
                      (caught (Error ''category is invalid or missing''), Some s,
                       [FindOne Person])
                    else
                      (case findOne (\<lambda>c. Some (c_name c) = i_name a) (tNFTCollection s) of
                         Some findResult \<Rightarrow>
                           (caught (Error ''Same collection name detected''), Some s,
                            [FindOne Person, FindOne NFTCollection])
                       | None \<Rightarrow>
                           (case uploadImage (orElse (i_logoFile a) '''') of
                              Inl e \<Rightarrow> (caught e, Some s, [FindOne Person, FindOne NFTCollection])
                            | Inr logoUrl \<Rightarrow>
                                (case uploadOptional uploadImage (i_featuredImgFile a) of
                                   Inl e \<Rightarrow>
                                     (caught e, Some s, [FindOne Person, FindOne NFTCollection])
                                 | Inr featureUrl \<Rightarrow>
                                     (case uploadOptional uploadImage (i_bannerImgFile a) of
                                        Inl e \<Rightarrow>
                                          (caught e, Some s,
                                           [FindOne Person, FindOne NFTCollection])
                                      | Inr bannerUrl \<Rightarrow>
                                          (let nftCollection =
                                                 newCollection a creator logoUrl featureUrl
                                                   bannerUrl;
                                               (result, s') =
                                                 insertOne_NFTCollection nftCollection s
                                           in (case result of
                                                 Some insertedId \<Rightarrow>
                                                   Returned (respond
                                                     (NewCollection (nftCollection insertedId)
                                                        creator)
                                                     False 200)
                                               | None \<Rightarrow>
                                                   Returned (respond
                                                     (Message
                                                        ''Failed to create a new collection.'')
                                                     True 500),
                                               Some s',
                                               [FindOne Person, FindOne NFTCollection,
                                                InsertOne NFTCollection])))))))))"

text \<open>\<^verbatim>\<open>owners.filter((item, pos) => owners.indexOf(item) == pos)\<close>\<close>

definition firstOccurrences :: "'a list \<Rightarrow> 'a list" where
  "firstOccurrences owners =
     map snd (filter (\<lambda>(pos, item). indexOf owners item = int pos) (enumerate 0 owners))"

definition getCollectionDetail ::
  "float64 \<Rightarrow> clock \<Rightarrow> store option \<Rightarrow> string \<Rightarrow> run" where
  "getCollectionDetail ops now mongodb contract =
     (case mongodb of
        None \<Rightarrow> (Threw undefinedHandle, None, [])
      | Some s \<Rightarrow>
          (case findOne (\<lambda>c. c_contract c = contract) (tNFTCollection s) of
             None \<Rightarrow>
               (Returned (respond (Message ''collection not found'') True 501), Some s,
                [FindOne NFTCollection])
           | Some collection \<Rightarrow>
               (let activities = find_toArray (\<lambda>a. a_collection a = Str contract) (tActivity s);
                    nfts = find_toArray (\<lambda>n. n_collection n = Str contract) (tNFT s);
                    owners = firstOccurrences (map n_owner nfts);
                    h = get24HValues ops s now contract;
                    creator = findOne (\<lambda>p. p_wallet p = c_creator collection) (tPerson s)
                in (Returned (respond
                      (CollectionDetail
                         \<lparr>d_collection = collection,
                          d_activities = activities,
                          d_nfts = nfts,
                          d_floorPrice = 0,
                          d_totalVolume = 0,
                          d_owners = length owners,
                          d_items = length nfts,
                          d_24h = todayTrade h,
                          d_24hPercent = h_24h h,
                          d_creatorDetail = creator\<rparr>)
                      False 200),
                    Some s,
                    [FindOne NFTCollection, Find Activity, Find NFT, Find Activity,
                     FindOne Person]))))"

section \<open>Reading a result\<close>

definition returned :: "run \<Rightarrow> outcome" where
  "returned r = fst r"

definition storeAfter :: "run \<Rightarrow> store option" where
  "storeAfter r = fst (snd r)"

definition dbcalls :: "run \<Rightarrow> dbcall list" where
  "dbcalls r = snd (snd r)"

fun collectionsOf :: "outcome \<Rightarrow> collection_row list" where
  "collectionsOf (Returned r) = (case payload r of Collections rows \<Rightarrow> rows | _ \<Rightarrow> [])"
| "collectionsOf (Threw e) = []"

fun ownerCollectionsOf :: "outcome \<Rightarrow> owner_collection_row list" where
  "ownerCollectionsOf (Returned r) =
     (case payload r of OwnerCollections rows \<Rightarrow> rows | _ \<Rightarrow> [])"
| "ownerCollectionsOf (Threw e) = []"

section \<open>Example data\<close>

text \<open>Instances of the parameters: a filter specification that translates to no stage, a
  driver that rejects a pipeline that is not an array, a parse that accepts 24 lower-case
  hexadecimal digits, an upload that names the url after the file.\<close>

definition noStages :: "unit \<Rightarrow> 'r stage list" where
  "noStages f = []"

definition rejectObject :: "'r list \<Rightarrow> error + 'r list" where
  "rejectObject rows = Inl (DriverError ''Argument \"pipeline\" must be an array of aggregation stages'')"

definition isHex :: "char \<Rightarrow> bool" where
  "isHex c = (c \<in> set ''0123456789abcdef'')"

definition hexObjectId :: "string \<Rightarrow> error + oid" where
  "hexObjectId x =
     (if length x = 24 \<and> list_all isHex x then Inr x
      else Inl (TypeError ''Argument passed in must be a string of 12 bytes or a string of 24 hex characters''))"

definition uploadByName :: "string \<Rightarrow> error + string" where
  "uploadByName file = Inr (''https://img/'' @ file)"

text \<open>Two hosts at the instant \<open>t\<close>: one in a zone without clock changes, one in a zone
  whose clock was set back an hour during the last calendar day (America/New_York at
  13:00 on 5 November 2023 is \<open>fallBackClock 1699207200000\<close>: the same wall-clock time
  one and two days earlier is 25 and 49 hours back).\<close>

definition steadyClock :: "int \<Rightarrow> clock" where
  "steadyClock t = \<lparr>getTime = t, setDateBack = (\<lambda>k. t - k * 86400000)\<rparr>"

definition fallBackClock :: "int \<Rightarrow> clock" where
  "fallBackClock t = \<lparr>getTime = t, setDateBack = (\<lambda>k. t - k * 86400000 - 3600000)\<rparr>"

definition alice :: person where
  "alice = \<lparr>p_id = ''a00000000000000000000001'', p_photoUrl = '''', p_wallet = ''0xA'',
            p_social = '''', p_bio = '''', p_username = ''alice''\<rparr>"

definition art :: nftcollection where
  "art = \<lparr>c_id = ''c00000000000000000000001'', c_name = ''Art'', c_contract = ''0xC1'',
          c_creator = ''0xA'', c_creatorEarning = None, c_blockchain = ''ERC721'',
          c_isVerified = False, c_isExplicit = False, c_logoUrl = ''logo'',
          c_featuredUrl = '''', c_bannerUrl = '''', c_description = '''',
          c_category = ''art'', c_links = [], c_platform = ''Unknown'', c_properties = [],
          c_url = None\<rparr>"

definition token :: "jsref \<Rightarrow> string \<Rightarrow> string \<Rightarrow> real \<Rightarrow> nft" where
  "token coll index owner price =
     \<lparr>n_collection = coll, n_index = index, n_owner = owner, n_price = price,
      n_artURI = ''ipfs://art'', n_name = ''token''\<rparr>"

text \<open>One person, one collection with two NFTs of prices 5 and 3, no activity.\<close>

definition gallery :: store where
  "gallery =
     \<lparr>tPerson = [alice],
      tNFT = [token (Str ''0xC1'') ''1'' ''0xA'' 5, token (Str ''0xC1'') ''2'' ''0xB'' 3],
      tActivity = [],
      tNFTCollection = [art],
      next_id = 2\<rparr>"

text \<open>The same NFTs keyed by the collection's \<^verbatim>\<open>_id\<close>, as \<^verbatim>\<open>getOwnerCollection\<close> looks
  them up.\<close>

definition galleryById :: store where
  "galleryById =
     gallery\<lparr>tNFT := [token (ObjId ''c00000000000000000000001'') ''1'' ''0xA'' 5,
                       token (ObjId ''c00000000000000000000001'') ''2'' ''0xB'' 3]\<rparr>"


text \<open>A collection of a given volume: one NFT of that price under its own contract.\<close>

definition numbered :: "nat \<Rightarrow> nftcollection" where
  "numbered k = art\<lparr>c_name := ''n'', c_contract := replicate k CHR ''x''\<rparr>"

definition numberedToken :: "nat \<Rightarrow> nft" where
  "numberedToken k = token (Str (replicate k CHR ''x'')) ''1'' ''0xA'' (real k)"

definition market :: "nat \<Rightarrow> store" where
  "market n =
     \<lparr>tPerson = [alice],
      tNFT = map numberedToken [0..<n],
      tActivity = [],
      tNFTCollection = map numbered [0..<n],
      next_id = 2\<rparr>"

definition request :: collection_input where
  "request =
     \<lparr>i_logoFile = Some ''logo.png'', i_featuredImgFile = None, i_bannerImgFile = None,
      i_name = Some ''Birds'', i_description = None, i_category = Some ''art'',
      i_siteUrl = None, i_discordUrl = None, i_instagramUrl = None, i_mediumUrl = None,
      i_telegramUrl = None, i_creatorEarning = None, i_blockchain = Some ''Solana'',
      i_isExplicit = None, i_creatorId = ''a00000000000000000000001''\<rparr>"

section \<open>Properties\<close>

subsection \<open>Helper lemmas\<close>

lemma indexOf_from_notin: "x \<notin> set xs \<Longrightarrow> indexOf_from i xs x = -1"
  by (induction xs arbitrary: i) auto

lemma indexOf_from_ge: "x \<in> set xs \<Longrightarrow> i \<le> indexOf_from i xs x"
proof (induction xs arbitrary: i)
  case Nil
  then show ?case by simp
next
  case (Cons y ys)
  show ?case
  proof (cases "y = x")
    case True
    then show ?thesis by simp
  next
    case False
    with Cons.prems have "x \<in> set ys" by simp
    from Cons.IH [OF this, of "i + 1"] False show ?thesis by simp
  qed
qed

lemma indexOf_minus1: "indexOf xs x = -1 \<longleftrightarrow> x \<notin> set xs"
proof
  assume "indexOf xs x = -1"
  show "x \<notin> set xs"
  proof
    assume "x \<in> set xs"
    from indexOf_from_ge [OF this, of 0] \<open>indexOf xs x = -1\<close> show False
      by (simp add: indexOf_def)
  qed
next
  assume "x \<notin> set xs"
  then show "indexOf xs x = -1" by (simp add: indexOf_def indexOf_from_notin)
qed

lemma tally_fst: "fst (tally ops n acc) = fadd ops (fst acc) (n_price n)"
  by (simp add: tally_def split: prod.splits)

lemma tally_floor: "fst (snd (tally ops n acc)) = min (fst (snd acc)) (n_price n)"
  by (simp add: tally_def min_def split: prod.splits)

lemma fold_tally_volume:
  "fst (fold (tally ops) nfts acc) = fold (\<lambda>n v. fadd ops v (n_price n)) nfts (fst acc)"
  by (induction nfts arbitrary: acc) (simp_all add: tally_fst)

lemma fold_fadd_exact:
  "fold (\<lambda>n v. fadd exact v (n_price n)) nfts v = v + sum_list (map n_price nfts)"
  by (induction nfts arbitrary: v) (simp_all add: exact_def add.assoc)

lemma fold_tally_floor:
  "fst (snd (fold (tally ops) nfts acc)) =
     fold (\<lambda>n f. min f (n_price n)) nfts (fst (snd acc))"
  by (induction nfts arbitrary: acc) (simp_all add: tally_floor)

lemma fold_min_Min:
  "fold (\<lambda>n f. min f (n_price n)) nfts f0 = Min (insert f0 (n_price ` set nfts))"
proof (induction nfts arbitrary: f0)
  case Nil
  show ?case by simp
next
  case (Cons n nfts)
  have "Min (insert (min f0 (n_price n)) (n_price ` set nfts)) =
        Min (insert f0 (insert (n_price n) (n_price ` set nfts)))"
    by (cases "set nfts = {}") (simp_all add: min.assoc)
  then show ?case by (simp add: Cons.IH)
qed

lemma fold_min_zero:
  "list_all (\<lambda>n. 0 \<le> n_price n) nfts \<Longrightarrow> fold (\<lambda>n f. min f (n_price n)) nfts 0 = 0"
  by (induction nfts) simp_all

lemma collectionRow_volume:
  "r_volume (collectionRow ops s now c) =
     fold (\<lambda>n v. fadd ops v (n_price n))
       (filter (\<lambda>n. n_collection n = Str (c_contract c)) (tNFT s)) 0"
  using fold_tally_volume
    [of ops "filter (\<lambda>n. n_collection n = Str (c_contract c)) (tNFT s)" "(0, 0, [])"]
  by (simp add: collectionRow_def Let_def find_toArray_def case_prod_beta)

lemma collectionRow_volume_exact:
  "r_volume (collectionRow exact s now c) =
     sum_list (map n_price (filter (\<lambda>n. n_collection n = Str (c_contract c)) (tNFT s)))"
  by (simp add: collectionRow_volume fold_fadd_exact)

lemma collectionRow_floorPrice:
  "r_floorPrice (collectionRow ops s now c) =
     Min (insert 0
       (n_price ` set (filter (\<lambda>n. n_collection n = Str (c_contract c)) (tNFT s))))"
  using fold_tally_floor
    [of ops "filter (\<lambda>n. n_collection n = Str (c_contract c)) (tNFT s)" "(0, 0, [])"]
  by (simp add: collectionRow_def Let_def find_toArray_def fold_min_Min case_prod_beta)

lemma ownerCollectionRow_volume:
  "oc_volume (ownerCollectionRow ops s now c) =
     fold (\<lambda>n v. fadd ops v (n_price n))
       (filter (\<lambda>n. n_collection n = ObjId (c_id c)) (tNFT s)) 0"
  using fold_tally_volume
    [of ops "filter (\<lambda>n. n_collection n = ObjId (c_id c)) (tNFT s)" "(0, MAX_VALUE, [])"]
  by (simp add: ownerCollectionRow_def Let_def find_toArray_def case_prod_beta)

lemma ownerCollectionRow_floorPrice:
  "oc_floorPrice (ownerCollectionRow ops s now c) =
     Min (insert MAX_VALUE
       (n_price ` set (filter (\<lambda>n. n_collection n = ObjId (c_id c)) (tNFT s))))"
  using fold_tally_floor
    [of ops "filter (\<lambda>n. n_collection n = ObjId (c_id c)) (tNFT s)" "(0, MAX_VALUE, [])"]
  by (simp add: ownerCollectionRow_def Let_def find_toArray_def fold_min_Min case_prod_beta)

lemma runningSum_Cons:
  "runningSum ops v (a # rows) = runningSum ops (fadd ops v (a_price a)) rows"
  by (simp add: runningSum_def)

lemma todayRows_Cons:
  "todayRows b1 (a # rows) = (if a_date a > b1 then a # todayRows b1 rows else todayRows b1 rows)"
  by (simp add: todayRows_def)

lemma yesterdayRows_Cons:
  "yesterdayRows b1 b2 (a # rows) =
     (if \<not> a_date a > b1 \<and> a_date a > b2 then a # yesterdayRows b1 b2 rows
      else yesterdayRows b1 b2 rows)"
  by (simp add: yesterdayRows_def)

lemma addTrade_pair:
  "addTrade ops yd dd a (y, t) =
     (if a_date a > fdiv ops (real_of_int yd) 1000 then (y, fadd ops t (a_price a))
      else if a_date a > fdiv ops (real_of_int dd) 1000 then (fadd ops y (a_price a), t)
      else (y, t))"
  by (simp add: addTrade_def)

lemma fold_addTrade:
  "fold (addTrade ops yd dd) rows (y, t) =
     (runningSum ops y
        (yesterdayRows (fdiv ops (real_of_int yd) 1000) (fdiv ops (real_of_int dd) 1000) rows),
      runningSum ops t (todayRows (fdiv ops (real_of_int yd) 1000) rows))"
proof (induction rows arbitrary: y t)
  case Nil
  show ?case by (simp add: runningSum_def yesterdayRows_def todayRows_def)
next
  case (Cons a rows)
  let ?b1 = "fdiv ops (real_of_int yd) 1000"
  let ?b2 = "fdiv ops (real_of_int dd) 1000"
  have unfold: "fold (addTrade ops yd dd) (a # rows) (y, t) =
      fold (addTrade ops yd dd) rows (addTrade ops yd dd a (y, t))"
    by simp
  show ?case
  proof (cases "a_date a > ?b1")
    case True
    then have step: "addTrade ops yd dd a (y, t) = (y, fadd ops t (a_price a))"
      by (simp add: addTrade_pair)
    from True show ?thesis
      unfolding unfold step Cons.IH
      by (simp add: todayRows_Cons yesterdayRows_Cons runningSum_Cons)
  next
    case False
    show ?thesis
    proof (cases "a_date a > ?b2")
      case True
      with False have step: "addTrade ops yd dd a (y, t) = (fadd ops y (a_price a), t)"
        by (simp add: addTrade_pair)
      from False True show ?thesis
        unfolding unfold step Cons.IH
        by (simp add: todayRows_Cons yesterdayRows_Cons runningSum_Cons)
    next
      case no: False
      with False have step: "addTrade ops yd dd a (y, t) = (y, t)"
        by (simp add: addTrade_pair)
      from False no show ?thesis
        unfolding unfold step Cons.IH
        by (simp add: todayRows_Cons yesterdayRows_Cons)
    qed
  qed
qed

lemma trades_sums:
  "trades ops now rows =
     (priceSum ops (yesterdayRows (boundary ops now 1) (boundary ops now 2) rows),
      priceSum ops (todayRows (boundary ops now 1) rows))"
  by (simp add: trades_def fold_addTrade priceSum_def boundary_def)

lemma get24HValues_sums:
  "get24HValues ops s now address =
     (let soldList = filter (\<lambda>a. a_collection a = Str address) (tActivity s);
          today = priceSum ops (todayRows (boundary ops now 1) soldList);
          yesterday =
            priceSum ops (yesterdayRows (boundary ops now 1) (boundary ops now 2) soldList)
      in \<lparr>h_24h = (if today = 0 then 0 else if yesterday = 0 then 100
                    else fmul ops (fdiv ops today yesterday) 100),
          todayTrade = today\<rparr>)"
  by (simp add: get24HValues_def Let_def trades_sums percent24h_def find_toArray_def)

lemma sale_sel:
  "a_collection (sale ad d p) = Str ad" "a_price (sale ad d p) = p" "a_date (sale ad d p) = d"
  by (simp_all add: sale_def)

lemma two_sales:
  assumes b1: "n - 90000 \<le> b1" "b1 \<le> n - 82800"
    and b2: "n - 176400 \<le> b2" "b2 \<le> n - 169200"
  shows "todayRows b1 [sale address (n - 3600) 10, sale address (n - 108000) 5] =
           [sale address (n - 3600) 10]"
    and "yesterdayRows b1 b2 [sale address (n - 3600) 10, sale address (n - 108000) 5] =
           [sale address (n - 108000) 5]"
  using assms by (simp_all add: todayRows_def yesterdayRows_def sale_sel)

lemma trades_two_sales:
  assumes "real_of_int (getTime now) / 1000 - 90000 \<le> boundary ops now 1"
    and "boundary ops now 1 \<le> real_of_int (getTime now) / 1000 - 82800"
    and "real_of_int (getTime now) / 1000 - 176400 \<le> boundary ops now 2"
    and "boundary ops now 2 \<le> real_of_int (getTime now) / 1000 - 169200"
    and "fadd ops 0 10 = 10" and "fadd ops 0 5 = 5"
  shows "trades ops now [sale address (real_of_int (getTime now) / 1000 - 3600) 10,
                          sale address (real_of_int (getTime now) / 1000 - 108000) 5] = (5, 10)"
  unfolding trades_sums two_sales [OF assms(1) assms(2) assms(3) assms(4)]
  using assms(5) assms(6) by (simp add: priceSum_def runningSum_def sale_sel)

subsection \<open>C2: the 24-hour values\<close>

text \<open>
  C2 does not hold as stated.  On a host whose clock was set back an hour during the last
  calendar day, the code's first boundary is 25 hours before now.  A row of price 10 dated
  24.5 hours before now is not after now - 24h, so with the boundaries now - 24h and
  now - 48h it belongs to yesterday and the today sum is 0 and the percentage 0; the code
  counts it for today and returns the today sum 10 and the percentage 100.
\<close>

theorem get24HValues_not_24_hours:
  "get24HValues exact (gallery\<lparr>tActivity := [sale ''0xC1'' 1699119000 10]\<rparr>)
       (fallBackClock 1699207200000) ''0xC1'' = \<lparr>h_24h = 100, todayTrade = 10\<rparr>
   \<and> todayRows (1699207200000 / 1000 - 86400) [sale ''0xC1'' 1699119000 10] = []
   \<and> yesterdayRows (1699207200000 / 1000 - 86400) (1699207200000 / 1000 - 172800)
       [sale ''0xC1'' 1699119000 10] = [sale ''0xC1'' 1699119000 10]"
  by (simp add: get24HValues_sums boundary_def fallBackClock_def exact_def todayRows_def
      yesterdayRows_def priceSum_def runningSum_def sale_sel)

text \<open>
  C2, amended.  \<open>get24HValues\<close> splits the Activity rows of the collection at the two
  boundaries \<^verbatim>\<open>d.getTime() / 1000\<close>, for the dates \<open>d\<close> one and two local calendar days
  before now: today are the rows dated after the first, yesterday the rows dated after the
  second and not after the first.  It sums the prices of each window in row order and
  returns the today sum together with a percentage that is 0 when the today sum is zero,
  100 when the today sum is not zero and the yesterday sum is, and the today sum divided
  by the yesterday sum, times 100, otherwise (sums, quotient and product being those of
  the doubles).  In a zone whose clock did not change during the last two days the
  boundaries are the quotients by 1000 of now - 24h and now - 48h in milliseconds.
  Whenever the first boundary lies 23 to 25 hours and the second 47 to 49 hours before
  now, a row at now - 1h of price 10 and a row at now - 30h of price 5 give the today sum
  10, the yesterday sum 5 and the percentage 200 (0 + 10, 0 + 5, 10 / 5 and 2 * 100 are
  exact on doubles).
\<close>

theorem get24HValues_calendar_windows:
  "get24HValues ops s now address =
     (let soldList = filter (\<lambda>a. a_collection a = Str address) (tActivity s);
          today = priceSum ops (todayRows (boundary ops now 1) soldList);
          yesterday =
            priceSum ops (yesterdayRows (boundary ops now 1) (boundary ops now 2) soldList)
      in \<lparr>h_24h = (if today = 0 then 0 else if yesterday = 0 then 100
                    else fmul ops (fdiv ops today yesterday) 100),
          todayTrade = today\<rparr>)
   \<and> (setDateBack now 1 = getTime now - 86400000
        \<and> setDateBack now 2 = getTime now - 172800000 \<longrightarrow>
      boundary ops now 1 = fdiv ops (real_of_int (getTime now - 86400000)) 1000
      \<and> boundary ops now 2 = fdiv ops (real_of_int (getTime now - 172800000)) 1000)
   \<and> (real_of_int (getTime now) / 1000 - 90000 \<le> boundary ops now 1
        \<and> boundary ops now 1 \<le> real_of_int (getTime now) / 1000 - 82800
        \<and> real_of_int (getTime now) / 1000 - 176400 \<le> boundary ops now 2
        \<and> boundary ops now 2 \<le> real_of_int (getTime now) / 1000 - 169200
        \<and> fadd ops 0 10 = 10 \<and> fadd ops 0 5 = 5
        \<and> fdiv ops 10 5 = 2 \<and> fmul ops 2 100 = 200 \<longrightarrow>
      trades ops now [sale address (real_of_int (getTime now) / 1000 - 3600) 10,
                      sale address (real_of_int (getTime now) / 1000 - 108000) 5] = (5, 10)
      \<and> get24HValues ops
          (s\<lparr>tActivity := [sale address (real_of_int (getTime now) / 1000 - 3600) 10,
                           sale address (real_of_int (getTime now) / 1000 - 108000) 5]\<rparr>)
          now address = \<lparr>h_24h = 200, todayTrade = 10\<rparr>)"
proof (intro conjI impI)
  show "get24HValues ops s now address =
     (let soldList = filter (\<lambda>a. a_collection a = Str address) (tActivity s);
          today = priceSum ops (todayRows (boundary ops now 1) soldList);
          yesterday =
            priceSum ops (yesterdayRows (boundary ops now 1) (boundary ops now 2) soldList)
      in \<lparr>h_24h = (if today = 0 then 0 else if yesterday = 0 then 100
                    else fmul ops (fdiv ops today yesterday) 100),
          todayTrade = today\<rparr>)"
    by (rule get24HValues_sums)
next
  assume "setDateBack now 1 = getTime now - 86400000
        \<and> setDateBack now 2 = getTime now - 172800000"
  then show "boundary ops now 1 = fdiv ops (real_of_int (getTime now - 86400000)) 1000"
    and "boundary ops now 2 = fdiv ops (real_of_int (getTime now - 172800000)) 1000"
    by (simp_all add: boundary_def)
next
  assume h: "real_of_int (getTime now) / 1000 - 90000 \<le> boundary ops now 1
        \<and> boundary ops now 1 \<le> real_of_int (getTime now) / 1000 - 82800
        \<and> real_of_int (getTime now) / 1000 - 176400 \<le> boundary ops now 2
        \<and> boundary ops now 2 \<le> real_of_int (getTime now) / 1000 - 169200
        \<and> fadd ops 0 10 = 10 \<and> fadd ops 0 5 = 5
        \<and> fdiv ops 10 5 = 2 \<and> fmul ops 2 100 = 200"
  then have t: "trades ops now [sale address (real_of_int (getTime now) / 1000 - 3600) 10,
                      sale address (real_of_int (getTime now) / 1000 - 108000) 5] = (5, 10)"
    by (intro trades_two_sales) simp_all
  then show "trades ops now [sale address (real_of_int (getTime now) / 1000 - 3600) 10,
                      sale address (real_of_int (getTime now) / 1000 - 108000) 5] = (5, 10)" .
  from h show "get24HValues ops
          (s\<lparr>tActivity := [sale address (real_of_int (getTime now) / 1000 - 3600) 10,
                           sale address (real_of_int (getTime now) / 1000 - 108000) 5]\<rparr>)
          now address = \<lparr>h_24h = 200, todayTrade = 10\<rparr>"
    by (simp add: get24HValues_def Let_def find_toArray_def t percent24h_def sale_sel)
qed

theorem get24HValues_calendar_windows_witness:
  "boundary exact (steadyClock 1699207200000) 1 = 1699120800
   \<and> boundary exact (steadyClock 1699207200000) 2 = 1699034400
   \<and> trades exact (steadyClock 1699207200000)
       [sale ''0xC1'' 1699203600 10, sale ''0xC1'' 1699099200 5] = (5, 10)
   \<and> get24HValues exact
       (gallery\<lparr>tActivity := [sale ''0xC1'' 1699203600 10, sale ''0xC1'' 1699099200 5]\<rparr>)
       (steadyClock 1699207200000) ''0xC1'' = \<lparr>h_24h = 200, todayTrade = 10\<rparr>"
proof -
  have steady: "setDateBack (steadyClock 1699207200000) 1 =
        getTime (steadyClock 1699207200000) - 86400000
      \<and> setDateBack (steadyClock 1699207200000) 2 =
        getTime (steadyClock 1699207200000) - 172800000"
    by (simp add: steadyClock_def)
  have b: "boundary exact (steadyClock 1699207200000) 1 = 1699120800"
    "boundary exact (steadyClock 1699207200000) 2 = 1699034400"
    by (simp_all add: boundary_def steadyClock_def exact_def)
  have pre: "real_of_int (getTime (steadyClock 1699207200000)) / 1000 - 90000
          \<le> boundary exact (steadyClock 1699207200000) 1
        \<and> boundary exact (steadyClock 1699207200000) 1
          \<le> real_of_int (getTime (steadyClock 1699207200000)) / 1000 - 82800
        \<and> real_of_int (getTime (steadyClock 1699207200000)) / 1000 - 176400
          \<le> boundary exact (steadyClock 1699207200000) 2
        \<and> boundary exact (steadyClock 1699207200000) 2
          \<le> real_of_int (getTime (steadyClock 1699207200000)) / 1000 - 169200
        \<and> fadd exact 0 10 = 10 \<and> fadd exact 0 5 = 5
        \<and> fdiv exact 10 5 = 2 \<and> fmul exact 2 100 = 200"
    by (simp add: b) (simp add: steadyClock_def exact_def)
  have n: "real_of_int (getTime (steadyClock 1699207200000)) / 1000 = 1699207200"
    by (simp add: steadyClock_def)
  note inst = get24HValues_calendar_windows
    [where ops = exact and now = "steadyClock 1699207200000" and s = gallery
       and address = "''0xC1''"]
  from inst [THEN conjunct2, THEN conjunct1, rule_format, OF steady]
       inst [THEN conjunct2, THEN conjunct2, rule_format, OF pre] b
  show ?thesis by (simp add: n)
qed

subsection \<open>C1: volume and floor price\<close>

text \<open>
  C1.  At a collection with two NFTs of prices 5 and 3, \<open>getCollections\<close> and
  \<open>getTopCollections\<close> return volume 8 and floor price 0, not the minimum 3: the floor
  price starts at 0 and is only ever lowered (the floor price is 0 whatever the rounding
  of the sums).  At a collection without NFTs they return floor price 0 where
  \<open>getOwnerCollection\<close> returns \<open>Number.MAX_VALUE\<close>, so there is no single value for
  "no items".
\<close>

theorem collections_floorPrice_zero:
  "map (\<lambda>r. (r_volume r, r_floorPrice r))
     (collectionsOf (returned
        (getCollections noStages rejectObject exact now (Some gallery) (Some ()))))
       = [(8, 0)]
   \<and> map (\<lambda>r. (r_volume r, r_floorPrice r))
     (collectionsOf (returned
        (getTopCollections noStages rejectObject exact now (Some gallery) (Some ()))))
       = [(8, 0)]
   \<and> map r_floorPrice
     (collectionsOf (returned
        (getCollections noStages rejectObject ops now (Some gallery) (Some ())))) = [0]
   \<and> map r_floorPrice
     (collectionsOf (returned
        (getTopCollections noStages rejectObject ops now (Some gallery) (Some ())))) = [0]
   \<and> map (\<lambda>r. (r_volume r, r_floorPrice r))
     (collectionsOf (returned
        (getCollections noStages rejectObject ops now (Some (gallery\<lparr>tNFT := []\<rparr>))
           (Some ()))))
       = [(0, 0)]
   \<and> map (\<lambda>r. (oc_volume r, oc_floorPrice r))
     (ownerCollectionsOf (returned
        (getOwnerCollection noStages ops now (Some (gallery\<lparr>tNFT := []\<rparr>)) ''0xA'' None)))
       = [(0, MAX_VALUE)]"
proof (intro conjI)
  show "map (\<lambda>r. (r_volume r, r_floorPrice r))
     (collectionsOf (returned
        (getCollections noStages rejectObject exact now (Some gallery) (Some ()))))
       = [(8, 0)]"
    by (simp add: getCollections_def returned_def collectionAggregation_def noStages_def
        truthy_array_def gallery_def collectionRow_def Let_def find_toArray_def art_def
        token_def tally_def indexOf_def respond_def exact_def)
  show "map (\<lambda>r. (r_volume r, r_floorPrice r))
     (collectionsOf (returned
        (getTopCollections noStages rejectObject exact now (Some gallery) (Some ()))))
       = [(8, 0)]"
    by (simp add: getTopCollections_def returned_def collectionAggregation_def noStages_def
        truthy_array_def gallery_def collectionRow_def Let_def find_toArray_def art_def
        token_def tally_def indexOf_def respond_def array_sort_def slice0_def exact_def)
  show "map r_floorPrice
     (collectionsOf (returned
        (getCollections noStages rejectObject ops now (Some gallery) (Some ())))) = [0]"
    by (simp add: getCollections_def returned_def collectionAggregation_def noStages_def
        truthy_array_def gallery_def collectionRow_def Let_def find_toArray_def art_def
        token_def tally_def indexOf_def respond_def)
  show "map r_floorPrice
     (collectionsOf (returned
        (getTopCollections noStages rejectObject ops now (Some gallery) (Some ())))) = [0]"
    by (simp add: getTopCollections_def returned_def collectionAggregation_def noStages_def
        truthy_array_def gallery_def collectionRow_def Let_def find_toArray_def art_def
        token_def tally_def indexOf_def respond_def array_sort_def slice0_def)
  show "map (\<lambda>r. (r_volume r, r_floorPrice r))
     (collectionsOf (returned
        (getCollections noStages rejectObject ops now (Some (gallery\<lparr>tNFT := []\<rparr>))
           (Some ()))))
       = [(0, 0)]"
    by (simp add: getCollections_def returned_def collectionAggregation_def noStages_def
        truthy_array_def gallery_def collectionRow_def Let_def find_toArray_def art_def
        respond_def)
  show "map (\<lambda>r. (oc_volume r, oc_floorPrice r))
     (ownerCollectionsOf (returned
        (getOwnerCollection noStages ops now (Some (gallery\<lparr>tNFT := []\<rparr>)) ''0xA'' None)))
       = [(0, MAX_VALUE)]"
    by (simp add: getOwnerCollection_def returned_def ownerAggregation_def match_def
        truthy_array_def gallery_def ownerCollectionRow_def Let_def find_toArray_def art_def
        respond_def)
qed

subsection \<open>Lookups after an insert, and the paths of collection creation\<close>

lemma findOne_append_new:
  "findOne q rows = None \<Longrightarrow> q x \<Longrightarrow> findOne q (rows @ [x]) = Some x"
  by (induction rows) (simp_all add: findOne_def split: if_splits)

lemma caught_isError: "caught e = Returned r \<Longrightarrow> isError r"
  by (auto simp: caught_def respond_def)

lemma createCollection_success:
  assumes "ObjectId (i_creatorId a) = Inr i"
    and "findOne (\<lambda>p. p_id p = i) (tPerson s) = Some creator"
    and "\<not> missing (i_logoFile a)" and "\<not> missing (i_name a)"
    and "\<not> missing (i_blockchain a)" and "\<not> missing (i_category a)"
    and "findOne (\<lambda>c. Some (c_name c) = i_name a) (tNFTCollection s) = None"
    and "uploadImage (orElse (i_logoFile a) '''') = Inr logoUrl"
    and "uploadOptional uploadImage (i_featuredImgFile a) = Inr featureUrl"
    and "uploadOptional uploadImage (i_bannerImgFile a) = Inr bannerUrl"
  shows "createCollection ObjectId uploadImage (Some s) a =
     (Returned (respond
        (NewCollection
           (newCollection a creator logoUrl featureUrl bannerUrl (mk_oid (next_id s))) creator)
        False 200),
      Some (s\<lparr>tNFTCollection := tNFTCollection s @
               [newCollection a creator logoUrl featureUrl bannerUrl (mk_oid (next_id s))],
              next_id := next_id s + 1\<rparr>),
      [FindOne Person, FindOne NFTCollection, InsertOne NFTCollection])"
  using assms by (simp add: createCollection_def insertOne_NFTCollection_def Let_def)

lemma createCollection_duplicate:
  assumes "ObjectId (i_creatorId a) = Inr i"
    and "findOne (\<lambda>p. p_id p = i) (tPerson s) = Some creator"
    and "\<not> missing (i_logoFile a)" and "\<not> missing (i_name a)"
    and "\<not> missing (i_blockchain a)" and "\<not> missing (i_category a)"
    and "findOne (\<lambda>c. Some (c_name c) = i_name a) (tNFTCollection s) = Some c"
  shows "createCollection ObjectId uploadImage (Some s) a =
     (caught (Error ''Same collection name detected''), Some s,
      [FindOne Person, FindOne NFTCollection])"
  using assms by (simp add: createCollection_def)

lemma createCollection_badId:
  "ObjectId (i_creatorId a) = Inl e \<Longrightarrow>
   createCollection ObjectId uploadImage (Some s) a = (caught e, Some s, [])"
  by (simp add: createCollection_def)

lemma createCollection_noCreator:
  "ObjectId (i_creatorId a) = Inr i \<Longrightarrow> findOne (\<lambda>p. p_id p = i) (tPerson s) = None \<Longrightarrow>
   createCollection ObjectId uploadImage (Some s) a =
     (caught (Error ''creator address is invalid or missing''), Some s, [FindOne Person])"
  by (simp add: createCollection_def)

lemma createCollection_invalid:
  assumes "ObjectId (i_creatorId a) = Inr i"
    and "findOne (\<lambda>p. p_id p = i) (tPerson s) = Some creator"
    and "missing (i_logoFile a) \<or> missing (i_name a) \<or> missing (i_blockchain a)
         \<or> missing (i_category a)"
  shows "createCollection ObjectId uploadImage (Some s) a =
     (caught (Error
        (if missing (i_logoFile a) then ''logoUrl is invalid or missing''
         else if missing (i_name a) then ''name is invalid or missing''
         else if missing (i_blockchain a) then ''blockchain is invalid or missing''
         else ''category is invalid or missing'')),
      Some s, [FindOne Person])"
  using assms by (auto simp add: createCollection_def)

lemma createCollection_uploadFails:
  assumes "ObjectId (i_creatorId a) = Inr i"
    and "findOne (\<lambda>p. p_id p = i) (tPerson s) = Some creator"
    and "\<not> missing (i_logoFile a)" and "\<not> missing (i_name a)"
    and "\<not> missing (i_blockchain a)" and "\<not> missing (i_category a)"
    and "findOne (\<lambda>c. Some (c_name c) = i_name a) (tNFTCollection s) = None"
    and "uploadImage (orElse (i_logoFile a) '''') = Inl e
         \<or> uploadOptional uploadImage (i_featuredImgFile a) = Inl e
         \<or> uploadOptional uploadImage (i_bannerImgFile a) = Inl e"
  shows "\<exists>e'. createCollection ObjectId uploadImage (Some s) a =
     (caught e', Some s, [FindOne Person, FindOne NFTCollection])"
  using assms by (auto simp add: createCollection_def split: sum.splits)

lemma createCollection_success_inv:
  assumes ret: "returned (createCollection ObjectId uploadImage (Some s) a) = Returned r"
    and ok: "\<not> isError r"
  shows "\<exists>i creator logoUrl featureUrl bannerUrl.
          ObjectId (i_creatorId a) = Inr i
        \<and> findOne (\<lambda>p. p_id p = i) (tPerson s) = Some creator
        \<and> \<not> missing (i_logoFile a) \<and> \<not> missing (i_name a)
        \<and> \<not> missing (i_blockchain a) \<and> \<not> missing (i_category a)
        \<and> findOne (\<lambda>c. Some (c_name c) = i_name a) (tNFTCollection s) = None
        \<and> uploadImage (orElse (i_logoFile a) '''') = Inr logoUrl
        \<and> uploadOptional uploadImage (i_featuredImgFile a) = Inr featureUrl
        \<and> uploadOptional uploadImage (i_bannerImgFile a) = Inr bannerUrl"
proof -
  have no: "\<And>e st cs. createCollection ObjectId uploadImage (Some s) a \<noteq> (caught e, st, cs)"
    using ret ok caught_isError by (auto simp: returned_def)
  obtain i where oi: "ObjectId (i_creatorId a) = Inr i"
    using no createCollection_badId [where ObjectId = ObjectId and uploadImage = uploadImage and a = a and s = s]
    by (cases "ObjectId (i_creatorId a)") auto
  obtain creator where cr: "findOne (\<lambda>p. p_id p = i) (tPerson s) = Some creator"
    using no createCollection_noCreator [where ObjectId = ObjectId and uploadImage = uploadImage, OF oi]
    by (cases "findOne (\<lambda>p. p_id p = i) (tPerson s)") auto
  have valid: "\<not> (missing (i_logoFile a) \<or> missing (i_name a) \<or> missing (i_blockchain a)
         \<or> missing (i_category a))"
    using no createCollection_invalid [where ObjectId = ObjectId and uploadImage = uploadImage, OF oi cr] by blast
  have fresh: "findOne (\<lambda>c. Some (c_name c) = i_name a) (tNFTCollection s) = None"
    using no createCollection_duplicate [where ObjectId = ObjectId and uploadImage = uploadImage, OF oi cr] valid
    by (cases "findOne (\<lambda>c. Some (c_name c) = i_name a) (tNFTCollection s)") auto
  have up: "\<And>e. \<not> (uploadImage (orElse (i_logoFile a) '''') = Inl e
         \<or> uploadOptional uploadImage (i_featuredImgFile a) = Inl e
         \<or> uploadOptional uploadImage (i_bannerImgFile a) = Inl e)"
    using no createCollection_uploadFails [where ObjectId = ObjectId and uploadImage = uploadImage, OF oi cr _ _ _ _ fresh] valid by blast
  obtain logoUrl where l: "uploadImage (orElse (i_logoFile a) '''') = Inr logoUrl"
    using up by (cases "uploadImage (orElse (i_logoFile a) '''')") auto
  obtain featureUrl where f: "uploadOptional uploadImage (i_featuredImgFile a) = Inr featureUrl"
    using up by (cases "uploadOptional uploadImage (i_featuredImgFile a)") auto
  obtain bannerUrl where b: "uploadOptional uploadImage (i_bannerImgFile a) = Inr bannerUrl"
    using up by (cases "uploadOptional uploadImage (i_bannerImgFile a)") auto
  from oi cr valid fresh l f b show ?thesis by blast
qed

lemma newCollection_name:
  "\<not> missing (i_name a) \<Longrightarrow> Some (c_name (newCollection a creator l f b i)) = i_name a"
  by (cases "i_name a") (simp_all add: newCollection_def orElse_def missing_def)

lemma createCollection_again:
  assumes ret: "returned (createCollection ObjectId uploadImage (Some s) a) = Returned r"
    and ok: "\<not> isError r"
  shows "createCollection ObjectId uploadImage
           (storeAfter (createCollection ObjectId uploadImage (Some s) a)) a =
     (caught (Error ''Same collection name detected''),
      storeAfter (createCollection ObjectId uploadImage (Some s) a),
      [FindOne Person, FindOne NFTCollection])"
proof -
  from createCollection_success_inv [OF ret ok]
  obtain i creator logoUrl featureUrl bannerUrl where
    oi: "ObjectId (i_creatorId a) = Inr i"
    and cr: "findOne (\<lambda>p. p_id p = i) (tPerson s) = Some creator"
    and v1: "\<not> missing (i_logoFile a)" and v2: "\<not> missing (i_name a)"
    and v3: "\<not> missing (i_blockchain a)" and v4: "\<not> missing (i_category a)"
    and fresh: "findOne (\<lambda>c. Some (c_name c) = i_name a) (tNFTCollection s) = None"
    and l: "uploadImage (orElse (i_logoFile a) '''') = Inr logoUrl"
    and f: "uploadOptional uploadImage (i_featuredImgFile a) = Inr featureUrl"
    and b: "uploadOptional uploadImage (i_bannerImgFile a) = Inr bannerUrl"
    by blast
  let ?doc = "newCollection a creator logoUrl featureUrl bannerUrl (mk_oid (next_id s))"
  let ?s' = "s\<lparr>tNFTCollection := tNFTCollection s @ [?doc], next_id := next_id s + 1\<rparr>"
  have after: "storeAfter (createCollection ObjectId uploadImage (Some s) a) = Some ?s'"
    by (simp add: createCollection_success [where ObjectId = ObjectId and uploadImage = uploadImage, OF oi cr v1 v2 v3 v4 fresh l f b] storeAfter_def)
  have cr': "findOne (\<lambda>p. p_id p = i) (tPerson ?s') = Some creator"
    using cr by simp
  have dup: "findOne (\<lambda>c. Some (c_name c) = i_name a) (tNFTCollection ?s') = Some ?doc"
    using findOne_append_new [OF fresh, of ?doc] newCollection_name [OF v2] by simp
  show ?thesis
    unfolding after by (rule createCollection_duplicate [where ObjectId = ObjectId and uploadImage = uploadImage, OF oi cr' v1 v2 v3 v4 dup])
qed



lemma hexObjectId_alice:
  "hexObjectId ''a00000000000000000000001'' = Inr ''a00000000000000000000001''"
  by (simp add: hexObjectId_def isHex_def)


subsection \<open>C3: the unset handle\<close>

text \<open>
  C3.  With the handle unset, \<open>findPerson\<close>, \<open>createOwner\<close>, \<open>insertFavourite\<close>,
  \<open>removeFavourite\<close>, \<open>createCollection\<close> and \<open>getCollectionDetail\<close> throw the
  TypeError of reading \<^verbatim>\<open>collection\<close> of undefined: they return no payload, and the
  exception leaves the operation.  \<open>getCollections\<close>, which tests the handle, returns the
  500 payload "Could not connect to the database.".
\<close>

theorem unguarded_operations_throw:
  "findPerson None personId = (Threw undefinedHandle, None, [])
   \<and> createOwner None photoUrl wallet bio username social = (Threw undefinedHandle, None, [])
   \<and> insertFavourite ObjectId None ownerId collectionId nftId
       = (Threw undefinedHandle, None, [])
   \<and> removeFavourite ObjectId None ownerId collectionId nftId
       = (Threw undefinedHandle, None, [])
   \<and> createCollection ObjectId uploadImage None a = (Threw undefinedHandle, None, [])
   \<and> getCollectionDetail ops now None contract = (Threw undefinedHandle, None, [])
   \<and> getCollections parseFilters aggregateObject ops now None filters
       = (Returned (respond (Message ''Could not connect to the database.'') True 500),
          None, [])"
  by (simp add: findPerson_def createOwner_def insertFavourite_def removeFavourite_def
      createCollection_def getCollectionDetail_def getCollections_def caught_def
      notConnected_def)

subsection \<open>C4: get-or-create of a person\<close>

text \<open>
  C4.  When no Person has the wallet \<open>w\<close>, \<open>findPerson\<close> appends exactly one Person, with
  the wallet \<open>w\<close>, a generated id and empty photoUrl, social, bio and username, and returns
  the success payload with that id and wallet, the four empty fields and both counts 0.
  Called again on the resulting store it returns the same id, wallet and fields, now with
  the number of NFTs whose owner is \<open>w\<close> and of collections whose creator is \<open>w\<close>, and
  leaves the store as it is.  When a Person has the wallet, \<open>findPerson\<close> returns the id,
  wallet and profile fields of the first such Person with those two numbers, and leaves
  the store as it is.
\<close>

theorem findPerson_get_or_create:
  "(List.find (\<lambda>p. p_wallet p = w) (tPerson s) = None \<longrightarrow>
       findPerson (Some s) w =
         (Returned
            \<lparr>payload = PersonInfo
               \<lparr>v_id = mk_oid (next_id s), v_photoUrl = '''', v_wallet = w,
                v_username = '''', v_bio = '''', v_social = '''', v_nfts = 0,
                v_collections = 0\<rparr>,
             isError = False, code = 200\<rparr>,
          Some (s\<lparr>tPerson := tPerson s @
                   [\<lparr>p_id = mk_oid (next_id s), p_photoUrl = '''', p_wallet = w,
                     p_social = '''', p_bio = '''', p_username = ''''\<rparr>],
                  next_id := next_id s + 1\<rparr>),
          [FindOne Person, Count NFT, Count NFTCollection, InsertOne Person, FindOne Person])
       \<and> findPerson
           (Some (s\<lparr>tPerson := tPerson s @
                   [\<lparr>p_id = mk_oid (next_id s), p_photoUrl = '''', p_wallet = w,
                     p_social = '''', p_bio = '''', p_username = ''''\<rparr>],
                  next_id := next_id s + 1\<rparr>)) w =
         (Returned
            \<lparr>payload = PersonInfo
               \<lparr>v_id = mk_oid (next_id s), v_photoUrl = '''', v_wallet = w,
                v_username = '''', v_bio = '''', v_social = '''',
                v_nfts = length (filter (\<lambda>n. n_owner n = w) (tNFT s)),
                v_collections = length (filter (\<lambda>c. c_creator c = w) (tNFTCollection s))\<rparr>,
             isError = False, code = 200\<rparr>,
          Some (s\<lparr>tPerson := tPerson s @
                   [\<lparr>p_id = mk_oid (next_id s), p_photoUrl = '''', p_wallet = w,
                     p_social = '''', p_bio = '''', p_username = ''''\<rparr>],
                  next_id := next_id s + 1\<rparr>),
          [FindOne Person, Count NFT, Count NFTCollection]))
   \<and> (\<forall>p. List.find (\<lambda>p. p_wallet p = w) (tPerson s) = Some p \<longrightarrow>
       findPerson (Some s) w =
         (Returned
            \<lparr>payload = PersonInfo
               \<lparr>v_id = p_id p, v_photoUrl = p_photoUrl p, v_wallet = p_wallet p,
                v_username = p_username p, v_bio = p_bio p, v_social = p_social p,
                v_nfts = length (filter (\<lambda>n. n_owner n = w) (tNFT s)),
                v_collections = length (filter (\<lambda>c. c_creator c = w) (tNFTCollection s))\<rparr>,
             isError = False, code = 200\<rparr>,
          Some s, [FindOne Person, Count NFT, Count NFTCollection]))"
proof (intro conjI impI allI)
  assume none: "List.find (\<lambda>p. p_wallet p = w) (tPerson s) = None"
  then have miss: "findOne (\<lambda>p. p_wallet p = w) (tPerson s) = None"
    by (simp add: findOne_def)
  let ?new = "\<lparr>p_id = mk_oid (next_id s), p_photoUrl = '''', p_wallet = w,
                 p_social = '''', p_bio = '''', p_username = ''''\<rparr>"
  have hit: "findOne (\<lambda>p. p_wallet p = w) (tPerson s @ [?new]) = Some ?new"
    by (rule findOne_append_new [OF miss]) simp
  from miss hit show "findPerson (Some s) w =
         (Returned
            \<lparr>payload = PersonInfo
               \<lparr>v_id = mk_oid (next_id s), v_photoUrl = '''', v_wallet = w,
                v_username = '''', v_bio = '''', v_social = '''', v_nfts = 0,
                v_collections = 0\<rparr>,
             isError = False, code = 200\<rparr>,
          Some (s\<lparr>tPerson := tPerson s @ [?new], next_id := next_id s + 1\<rparr>),
          [FindOne Person, Count NFT, Count NFTCollection, InsertOne Person, FindOne Person])"
    by (simp add: findPerson_def insertOne_Person_def Let_def blankPerson_def personInfo_def
        respond_def)
  from hit show "findPerson
           (Some (s\<lparr>tPerson := tPerson s @ [?new], next_id := next_id s + 1\<rparr>)) w =
         (Returned
            \<lparr>payload = PersonInfo
               \<lparr>v_id = mk_oid (next_id s), v_photoUrl = '''', v_wallet = w,
                v_username = '''', v_bio = '''', v_social = '''',
                v_nfts = length (filter (\<lambda>n. n_owner n = w) (tNFT s)),
                v_collections = length (filter (\<lambda>c. c_creator c = w) (tNFTCollection s))\<rparr>,
             isError = False, code = 200\<rparr>,
          Some (s\<lparr>tPerson := tPerson s @ [?new], next_id := next_id s + 1\<rparr>),
          [FindOne Person, Count NFT, Count NFTCollection])"
    by (simp add: findPerson_def Let_def personInfo_def respond_def find_count_def)
next
  fix p
  assume "List.find (\<lambda>p. p_wallet p = w) (tPerson s) = Some p"
  then have "findOne (\<lambda>p. p_wallet p = w) (tPerson s) = Some p"
    by (simp add: findOne_def)
  then show "findPerson (Some s) w =
         (Returned
            \<lparr>payload = PersonInfo
               \<lparr>v_id = p_id p, v_photoUrl = p_photoUrl p, v_wallet = p_wallet p,
                v_username = p_username p, v_bio = p_bio p, v_social = p_social p,
                v_nfts = length (filter (\<lambda>n. n_owner n = w) (tNFT s)),
                v_collections = length (filter (\<lambda>c. c_creator c = w) (tNFTCollection s))\<rparr>,
             isError = False, code = 200\<rparr>,
          Some s, [FindOne Person, Count NFT, Count NFTCollection])"
    by (simp add: findPerson_def Let_def personInfo_def respond_def find_count_def)
qed

theorem findPerson_get_or_create_witness:
  "findPerson (Some gallery) ''0xB'' =
     (Returned
        \<lparr>payload = PersonInfo
           \<lparr>v_id = mk_oid 2, v_photoUrl = '''', v_wallet = ''0xB'', v_username = '''',
            v_bio = '''', v_social = '''', v_nfts = 0, v_collections = 0\<rparr>,
         isError = False, code = 200\<rparr>,
      Some (gallery\<lparr>tPerson :=
              [alice,
               \<lparr>p_id = mk_oid 2, p_photoUrl = '''', p_wallet = ''0xB'', p_social = '''',
                p_bio = '''', p_username = ''''\<rparr>],
              next_id := 3\<rparr>),
      [FindOne Person, Count NFT, Count NFTCollection, InsertOne Person, FindOne Person])
   \<and> findPerson
       (Some (gallery\<lparr>tPerson :=
              [alice,
               \<lparr>p_id = mk_oid 2, p_photoUrl = '''', p_wallet = ''0xB'', p_social = '''',
                p_bio = '''', p_username = ''''\<rparr>],
              next_id := 3\<rparr>))
       ''0xB'' =
     (Returned
        \<lparr>payload = PersonInfo
           \<lparr>v_id = mk_oid 2, v_photoUrl = '''', v_wallet = ''0xB'', v_username = '''',
            v_bio = '''', v_social = '''', v_nfts = 1, v_collections = 0\<rparr>,
         isError = False, code = 200\<rparr>,
      Some (gallery\<lparr>tPerson :=
              [alice,
               \<lparr>p_id = mk_oid 2, p_photoUrl = '''', p_wallet = ''0xB'', p_social = '''',
                p_bio = '''', p_username = ''''\<rparr>],
              next_id := 3\<rparr>),
      [FindOne Person, Count NFT, Count NFTCollection])
   \<and> findPerson (Some gallery) ''0xA'' =
     (Returned
        \<lparr>payload = PersonInfo
           \<lparr>v_id = ''a00000000000000000000001'', v_photoUrl = '''', v_wallet = ''0xA'',
            v_username = ''alice'', v_bio = '''', v_social = '''', v_nfts = 1,
            v_collections = 1\<rparr>,
         isError = False, code = 200\<rparr>,
      Some gallery, [FindOne Person, Count NFT, Count NFTCollection])"
proof -
  have new: "List.find (\<lambda>p. p_wallet p = ''0xB'') (tPerson gallery) = None"
    by (simp add: gallery_def alice_def)
  have old: "List.find (\<lambda>p. p_wallet p = ''0xA'') (tPerson gallery) = Some alice"
    by (simp add: gallery_def alice_def)
  have counts:
    "length (filter (\<lambda>n. n_owner n = ''0xB'') (tNFT gallery)) = 1"
    "length (filter (\<lambda>c. c_creator c = ''0xB'') (tNFTCollection gallery)) = 0"
    "length (filter (\<lambda>n. n_owner n = ''0xA'') (tNFT gallery)) = 1"
    "length (filter (\<lambda>c. c_creator c = ''0xA'') (tNFTCollection gallery)) = 1"
    by (simp_all add: gallery_def token_def art_def)
  have sz: "tPerson gallery = [alice]" "next_id gallery = 2"
    by (simp_all add: gallery_def)
  have who: "p_id alice = ''a00000000000000000000001''" "p_photoUrl alice = ''''"
    "p_wallet alice = ''0xA''" "p_username alice = ''alice''" "p_bio alice = ''''"
    "p_social alice = ''''"
    by (simp_all add: alice_def)
  note fresh = findPerson_get_or_create
    [where w = "''0xB''" and s = gallery, THEN conjunct1, rule_format, OF new]
  note known = findPerson_get_or_create
    [where w = "''0xA''" and s = gallery, THEN conjunct2, rule_format, OF old]
  from fresh known show ?thesis
    unfolding counts sz who by simp
qed

subsection \<open>C6: the history of an owner without activity\<close>

text \<open>
  C6.  When no Activity row has the owner as \<open>from\<close> or \<open>to\<close> (the table is empty, or
  holds only rows of others), \<open>getOwnerHistory\<close> without filters returns the success
  payload with the empty list and status 200, not the 422 payload "Activities not found.":
  the array that the aggregation returns is truthy also when it is empty.
\<close>

theorem getOwnerHistory_no_rows_succeeds:
  "getOwnerHistory parseFilters ObjectId (Some (s\<lparr>tActivity := []\<rparr>)) ownerId None =
     (Returned (respond (Activities []) False 200), Some (s\<lparr>tActivity := []\<rparr>),
      [Aggregate Activity])
   \<and> getOwnerHistory parseFilters ObjectId
       (Some (s\<lparr>tActivity :=
                 filter (\<lambda>a. \<not> (a_from a = ownerId \<or> a_to a = ownerId)) (tActivity s)\<rparr>))
       ownerId None =
     (Returned (respond (Activities []) False 200),
      Some (s\<lparr>tActivity :=
                filter (\<lambda>a. \<not> (a_from a = ownerId \<or> a_to a = ownerId)) (tActivity s)\<rparr>),
      [Aggregate Activity])"
proof -
  let ?q = "\<lambda>a. a_from a = ownerId \<or> a_to a = ownerId"
  have empty: "getOwnerHistory parseFilters ObjectId (Some t) ownerId None =
      (Returned (respond (Activities []) False 200), Some t, [Aggregate Activity])"
    if "filter ?q (tActivity t) = []" for t
    using that
    by (simp add: getOwnerHistory_def ownerAggregation_def match_def truthy_array_def
        promise_all_def)
  have none: "filter ?q (filter (\<lambda>a. \<not> ?q a) rows) = []" for rows
    by (induction rows) auto
  have sel: "tActivity (s\<lparr>tActivity := rows\<rparr>) = rows" for rows
    by simp
  have a: "filter ?q (tActivity (s\<lparr>tActivity := []\<rparr>)) = []"
    by simp
  have b: "filter ?q (tActivity (s\<lparr>tActivity := filter (\<lambda>a. \<not> ?q a) (tActivity s)\<rparr>)) = []"
    by (subst sel) (rule none)
  show ?thesis
    by (intro conjI empty [OF a] empty [OF b])
qed

subsection \<open>C7: creating an owner\<close>

text \<open>
  C7.  When a Person has the wallet, \<open>createOwner\<close> returns the error payload "Current
  user has been created" with status 501 and leaves the store as it is.  Otherwise it
  appends one Person with the given fields and returns, with status 201, the message
  "Successfully created a new owner with id" followed by the generated id; a second call
  with the same wallet then returns the 501 payload and inserts nothing.
\<close>

theorem createOwner_conflict_or_insert:
  "(\<forall>p. findOne (\<lambda>p. p_wallet p = wallet) (tPerson s) = Some p \<longrightarrow>
       createOwner (Some s) photoUrl wallet bio username social =
         (Returned (respond (Message ''Current user has been created'') True 501), Some s,
          [FindOne Person]))
   \<and> (findOne (\<lambda>p. p_wallet p = wallet) (tPerson s) = None \<longrightarrow>
       createOwner (Some s) photoUrl wallet bio username social =
         (Returned (respond
            (Message (''Successfully created a new owner with id '' @ mk_oid (next_id s)))
            False 201),
          Some (s\<lparr>tPerson := tPerson s @
                   [\<lparr>p_id = mk_oid (next_id s), p_photoUrl = photoUrl, p_wallet = wallet,
                     p_social = social, p_bio = bio, p_username = username\<rparr>],
                  next_id := next_id s + 1\<rparr>),
          [FindOne Person, InsertOne Person])
       \<and> createOwner
           (Some (s\<lparr>tPerson := tPerson s @
                   [\<lparr>p_id = mk_oid (next_id s), p_photoUrl = photoUrl, p_wallet = wallet,
                     p_social = social, p_bio = bio, p_username = username\<rparr>],
                  next_id := next_id s + 1\<rparr>))
           photoUrl' wallet bio' username' social' =
         (Returned (respond (Message ''Current user has been created'') True 501),
          Some (s\<lparr>tPerson := tPerson s @
                   [\<lparr>p_id = mk_oid (next_id s), p_photoUrl = photoUrl, p_wallet = wallet,
                     p_social = social, p_bio = bio, p_username = username\<rparr>],
                  next_id := next_id s + 1\<rparr>),
          [FindOne Person]))"
  by (simp add: createOwner_def insertOne_Person_def Let_def findOne_append_new)

theorem createOwner_conflict_or_insert_witness:
  "createOwner (Some gallery) ''photo'' ''0xA'' ''bio'' ''alice2'' ''social'' =
     (Returned (respond (Message ''Current user has been created'') True 501), Some gallery,
      [FindOne Person])
   \<and> createOwner (Some gallery) ''photo'' ''0xB'' ''bio'' ''bob'' ''social'' =
     (Returned (respond
        (Message (''Successfully created a new owner with id '' @ mk_oid 2)) False 201),
      Some (gallery\<lparr>tPerson :=
              [alice,
               \<lparr>p_id = mk_oid 2, p_photoUrl = ''photo'', p_wallet = ''0xB'',
                p_social = ''social'', p_bio = ''bio'', p_username = ''bob''\<rparr>],
              next_id := 3\<rparr>),
      [FindOne Person, InsertOne Person])"
proof -
  have new: "findOne (\<lambda>p. p_wallet p = ''0xB'') (tPerson gallery) = None"
    by (simp add: findOne_def gallery_def alice_def)
  have old: "findOne (\<lambda>p. p_wallet p = ''0xA'') (tPerson gallery) = Some alice"
    by (simp add: findOne_def gallery_def alice_def)
  have sz: "tPerson gallery = [alice]" "next_id gallery = 2"
    by (simp_all add: gallery_def)
  from createOwner_conflict_or_insert
         [of "''0xA''" gallery "''photo''" "''bio''" "''alice2''" "''social''"]
       createOwner_conflict_or_insert
         [of "''0xB''" gallery "''photo''" "''bio''" "''bob''" "''social''"]
       new old sz
  show ?thesis by simp
qed

subsection \<open>C8: the top collections\<close>

lemma set_insert_cmp: "set (insert_cmp cmp x ys) = insert x (set ys)"
  by (induction ys) auto

lemma mset_insert_cmp: "mset (insert_cmp cmp x ys) = add_mset x (mset ys)"
  by (induction ys) simp_all

lemma mset_array_sort: "mset (array_sort cmp xs) = mset xs"
  by (induction xs) (simp_all add: array_sort_def mset_insert_cmp)

lemma length_array_sort: "length (array_sort cmp xs) = length xs"
  using mset_array_sort [of cmp xs] by (metis size_mset)

lemma sorted_insert_cmp:
  "sorted_wrt (\<lambda>a b. r_volume b \<le> r_volume a) ys \<Longrightarrow>
   sorted_wrt (\<lambda>a b. r_volume b \<le> r_volume a) (insert_cmp byVolumeDesc x ys)"
proof (induction ys)
  case Nil
  show ?case by simp
next
  case (Cons y ys)
  show ?case
  proof (cases "byVolumeDesc x y \<le> 0")
    case True
    then have "r_volume y \<le> r_volume x" by (simp add: byVolumeDesc_def)
    with Cons.prems True show ?thesis by fastforce
  next
    case False
    then have "r_volume x \<le> r_volume y" by (simp add: byVolumeDesc_def)
    with Cons False show ?thesis by (auto simp: set_insert_cmp)
  qed
qed

lemma sorted_array_sort:
  "sorted_wrt (\<lambda>a b. r_volume b \<le> r_volume a) (array_sort byVolumeDesc xs)"
  by (induction xs) (simp_all add: array_sort_def sorted_insert_cmp)

lemma getTopCollections_eq:
  assumes "aggregate aggregateObject (collectionAggregation parseFilters filters)
             (tNFTCollection s) = Inr result"
  shows "getTopCollections parseFilters aggregateObject ops now (Some s) filters =
     (Returned (respond
        (Collections (take 10 (array_sort byVolumeDesc (map (collectionRow ops s now) result))))
        False 200),
      Some s, Aggregate NFTCollection # concat (map (\<lambda>c. rowCalls) result))"
  using assms by (simp add: getTopCollections_def truthy_array_def slice0_def Let_def)

text \<open>
  C8.  When the aggregation over NFTCollection succeeds with the rows \<open>result\<close>,
  \<open>getTopCollections\<close> returns the success payload whose list \<open>top\<close> is the first
  \<open>min 10 (length result)\<close> elements of a rearrangement \<open>top @ rest\<close> of all the enriched
  rows that is in descending order of volume: exactly 10 items when there are 10 rows or
  more, never more than 10, each of volume at least that of every row left out.  The sort
  and the cut are applied to the enriched rows of everything the aggregation returned.
\<close>

theorem getTopCollections_top10:
  assumes "aggregate aggregateObject (collectionAggregation parseFilters filters)
             (tNFTCollection s) = Inr result"
  shows "\<exists>top rest.
      returned (getTopCollections parseFilters aggregateObject ops now (Some s) filters) =
        Returned (respond (Collections top) False 200)
    \<and> mset (top @ rest) = mset (map (collectionRow ops s now) result)
    \<and> sorted_wrt (\<lambda>a b. r_volume b \<le> r_volume a) (top @ rest)
    \<and> length top = min 10 (length result)"
proof -
  let ?sorted = "array_sort byVolumeDesc (map (collectionRow ops s now) result)"
  have "returned (getTopCollections parseFilters aggregateObject ops now (Some s) filters) =
        Returned (respond (Collections (take 10 ?sorted)) False 200)"
    by (simp add: getTopCollections_eq [OF assms] returned_def)
  moreover have "mset (take 10 ?sorted @ drop 10 ?sorted) =
      mset (map (collectionRow ops s now) result)"
    by (simp add: mset_array_sort)
  moreover have "sorted_wrt (\<lambda>a b. r_volume b \<le> r_volume a)
      (take 10 ?sorted @ drop 10 ?sorted)"
    by (simp add: sorted_array_sort)
  moreover have "length (take 10 ?sorted) = min 10 (length result)"
    by (simp add: length_array_sort min.commute)
  ultimately show ?thesis by blast
qed

theorem getTopCollections_top10_witness:
  "\<exists>top rest.
      returned (getTopCollections noStages rejectObject exact (steadyClock 0) (Some (market 12))
          (Some ())) =
        Returned (respond (Collections top) False 200)
    \<and> mset (top @ rest) = mset (map (collectionRow exact (market 12) (steadyClock 0)) (map numbered [0..<12]))
    \<and> sorted_wrt (\<lambda>a b. r_volume b \<le> r_volume a) (top @ rest)
    \<and> length top = 10"
proof -
  have h: "aggregate rejectObject (collectionAggregation noStages (Some ()))
             (tNFTCollection (market 12)) = Inr (map numbered [0..<12])"
    by (simp add: collectionAggregation_def noStages_def market_def)
  show ?thesis using getTopCollections_top10 [OF h, where ops = exact and now = "steadyClock 0"] by simp
qed

subsection \<open>C9: the favourites\<close>




subsection \<open>C5: what createCollection rejects\<close>

lemma request_fields:
  "i_logoFile request = Some ''logo.png''" "i_featuredImgFile request = None"
  "i_bannerImgFile request = None" "i_name request = Some ''Birds''"
  "i_category request = Some ''art''" "i_blockchain request = Some ''Solana''"
  "i_creatorId request = ''a00000000000000000000001''"
  by (simp_all add: request_def)

lemma request_valid:
  "\<not> missing (i_logoFile request)" "\<not> missing (i_name request)"
  "\<not> missing (i_blockchain request)" "\<not> missing (i_category request)"
  "uploadByName (orElse (i_logoFile request) '''') = Inr ''https://img/logo.png''"
  "uploadOptional uploadByName (i_featuredImgFile request) = Inr ''''"
  "uploadOptional uploadByName (i_bannerImgFile request) = Inr ''''"
  by (simp_all add: request_fields missing_def orElse_def uploadByName_def uploadOptional_def)

lemma request_creator:
  "hexObjectId (i_creatorId request) = Inr ''a00000000000000000000001''"
  by (simp add: request_fields hexObjectId_alice)

lemma gallery_creator:
  "findOne (\<lambda>p. p_id p = ''a00000000000000000000001'') (tPerson gallery) = Some alice"
  by (simp add: findOne_def gallery_def alice_def)

lemma gallery_fresh:
  "findOne (\<lambda>c. Some (c_name c) = i_name request) (tNFTCollection gallery) = None"
  by (simp add: request_fields findOne_def gallery_def art_def)

lemma gallery_request:
  "createCollection hexObjectId uploadByName (Some gallery) request =
     (Returned (respond
        (NewCollection (newCollection request alice ''https://img/logo.png'' '''' ''''
           (mk_oid (next_id gallery))) alice)
        False 200),
      Some (gallery\<lparr>tNFTCollection := tNFTCollection gallery @
               [newCollection request alice ''https://img/logo.png'' '''' ''''
                  (mk_oid (next_id gallery))],
              next_id := next_id gallery + 1\<rparr>),
      [FindOne Person, FindOne NFTCollection, InsertOne NFTCollection])"
  by (rule createCollection_success
        [where ObjectId = hexObjectId and uploadImage = uploadByName,
         OF request_creator gallery_creator request_valid(1) request_valid(2)
            request_valid(3) request_valid(4) gallery_fresh request_valid(5)
            request_valid(6) request_valid(7)])

lemma createCollection_missingField:
  assumes "missing (i_logoFile a) \<or> missing (i_name a) \<or> missing (i_blockchain a)
         \<or> missing (i_category a)"
  shows "(\<exists>e. returned (createCollection ObjectId uploadImage (Some s) a) = caught e)
    \<and> storeAfter (createCollection ObjectId uploadImage (Some s) a) = Some s
    \<and> dbcalls (createCollection ObjectId uploadImage (Some s) a) =
        (case ObjectId (i_creatorId a) of Inl e \<Rightarrow> [] | Inr i \<Rightarrow> [FindOne Person])"
proof (cases "ObjectId (i_creatorId a)")
  case (Inl e)
  then show ?thesis
    by (auto simp add: createCollection_badId returned_def storeAfter_def dbcalls_def)
next
  case (Inr i)
  show ?thesis
  proof (cases "findOne (\<lambda>p. p_id p = i) (tPerson s)")
    case None
    with Inr show ?thesis
      by (auto simp add: createCollection_noCreator returned_def storeAfter_def dbcalls_def)
  next
    case (Some creator)
    from createCollection_invalid
           [where ObjectId = ObjectId and uploadImage = uploadImage, OF Inr Some assms]
    show ?thesis
      using Inr by (auto simp add: returned_def storeAfter_def dbcalls_def)
  qed
qed

lemma createCollection_nameTaken:
  assumes "findOne (\<lambda>c. Some (c_name c) = i_name a) (tNFTCollection s) = Some c"
  shows "(\<exists>e. returned (createCollection ObjectId uploadImage (Some s) a) = caught e)
    \<and> storeAfter (createCollection ObjectId uploadImage (Some s) a) = Some s"
proof (cases "missing (i_logoFile a) \<or> missing (i_name a) \<or> missing (i_blockchain a)
         \<or> missing (i_category a)")
  case True
  from createCollection_missingField [OF True] show ?thesis by blast
next
  case False
  show ?thesis
  proof (cases "ObjectId (i_creatorId a)")
    case (Inl e)
    then show ?thesis
      by (auto simp add: createCollection_badId returned_def storeAfter_def)
  next
    case (Inr i)
    show ?thesis
    proof (cases "findOne (\<lambda>p. p_id p = i) (tPerson s)")
      case None
      with Inr show ?thesis
        by (auto simp add: createCollection_noCreator returned_def storeAfter_def)
    next
      case (Some creator)
      from False createCollection_duplicate
             [where ObjectId = ObjectId and uploadImage = uploadImage, OF Inr Some _ _ _ _ assms]
      show ?thesis
        by (auto simp add: returned_def storeAfter_def)
    qed
  qed
qed

text \<open>
  C5 does not hold as stated: called with an empty name, \<open>createCollection\<close> has
  already looked the creator up in the Person collection when it rejects the name, so the
  validation failure comes after a database call.
\<close>

theorem createCollection_reads_before_validation:
  "returned (createCollection hexObjectId uploadByName (Some gallery)
       (request\<lparr>i_name := Some ''''\<rparr>)) = caught (Error ''name is invalid or missing'')
   \<and> dbcalls (createCollection hexObjectId uploadByName (Some gallery)
       (request\<lparr>i_name := Some ''''\<rparr>)) = [FindOne Person]
   \<and> dbcalls (createCollection hexObjectId uploadByName (Some gallery)
       (request\<lparr>i_name := Some ''''\<rparr>)) \<noteq> []"
  by (simp add: createCollection_def request_def hexObjectId_alice gallery_creator
      missing_def returned_def dbcalls_def)

text \<open>
  C5, amended.  When a call of \<open>createCollection\<close> has returned a success payload, a
  second call with the same arguments on the resulting store returns the error payload
  "Same collection name detected" (500) and leaves the store as it is.  Whenever a stored
  collection has the name, the call returns an error payload and leaves the store as it
  is.  Called with an empty or missing name, logoFile, blockchain or category, it returns
  an error payload and leaves the store as it is, and it writes nothing: its only
  database call is the read of the creator's Person (no call at all when the creator id
  does not parse).
\<close>

theorem createCollection_rejects:
  "(\<forall>r. returned (createCollection ObjectId uploadImage (Some s) a) = Returned r
        \<and> \<not> isError r \<longrightarrow>
      createCollection ObjectId uploadImage
          (storeAfter (createCollection ObjectId uploadImage (Some s) a)) a =
        (caught (Error ''Same collection name detected''),
         storeAfter (createCollection ObjectId uploadImage (Some s) a),
         [FindOne Person, FindOne NFTCollection]))
   \<and> (\<forall>c. findOne (\<lambda>c. Some (c_name c) = i_name a) (tNFTCollection s) = Some c \<longrightarrow>
      (\<exists>e. returned (createCollection ObjectId uploadImage (Some s) a) = caught e)
      \<and> storeAfter (createCollection ObjectId uploadImage (Some s) a) = Some s)
   \<and> (missing (i_logoFile a) \<or> missing (i_name a) \<or> missing (i_blockchain a)
        \<or> missing (i_category a) \<longrightarrow>
      (\<exists>e. returned (createCollection ObjectId uploadImage (Some s) a) = caught e)
      \<and> storeAfter (createCollection ObjectId uploadImage (Some s) a) = Some s
      \<and> dbcalls (createCollection ObjectId uploadImage (Some s) a) =
          (case ObjectId (i_creatorId a) of Inl e \<Rightarrow> [] | Inr i \<Rightarrow> [FindOne Person]))"
  using createCollection_again [where ObjectId = ObjectId and uploadImage = uploadImage]
    createCollection_nameTaken [where ObjectId = ObjectId and uploadImage = uploadImage]
    createCollection_missingField [where ObjectId = ObjectId and uploadImage = uploadImage]
  by blast

theorem createCollection_rejects_witness:
  "createCollection hexObjectId uploadByName
       (storeAfter (createCollection hexObjectId uploadByName (Some gallery) request))
       request =
     (caught (Error ''Same collection name detected''),
      storeAfter (createCollection hexObjectId uploadByName (Some gallery) request),
      [FindOne Person, FindOne NFTCollection])
   \<and> storeAfter (createCollection hexObjectId uploadByName (Some gallery)
        (request\<lparr>i_name := Some ''Art''\<rparr>)) = Some gallery
   \<and> storeAfter (createCollection hexObjectId uploadByName (Some gallery)
        (request\<lparr>i_name := Some ''''\<rparr>)) = Some gallery
   \<and> dbcalls (createCollection hexObjectId uploadByName (Some gallery)
        (request\<lparr>i_name := Some ''''\<rparr>)) = [FindOne Person]"
proof -
  have first: "returned (createCollection hexObjectId uploadByName (Some gallery) request) =
      Returned (respond
        (NewCollection (newCollection request alice ''https://img/logo.png'' '''' ''''
           (mk_oid (next_id gallery))) alice)
        False 200)
    \<and> \<not> isError (respond
        (NewCollection (newCollection request alice ''https://img/logo.png'' '''' ''''
           (mk_oid (next_id gallery))) alice)
        False 200)"
    by (simp add: gallery_request returned_def respond_def)
  have taken: "findOne (\<lambda>c. Some (c_name c) = i_name (request\<lparr>i_name := Some ''Art''\<rparr>))
      (tNFTCollection gallery) = Some art"
    by (simp add: findOne_def gallery_def art_def)
  have empty: "missing (i_logoFile (request\<lparr>i_name := Some ''''\<rparr>))
      \<or> missing (i_name (request\<lparr>i_name := Some ''''\<rparr>))
      \<or> missing (i_blockchain (request\<lparr>i_name := Some ''''\<rparr>))
      \<or> missing (i_category (request\<lparr>i_name := Some ''''\<rparr>))"
    by (simp add: missing_def)
  have parse: "hexObjectId (i_creatorId (request\<lparr>i_name := Some ''''\<rparr>)) =
      Inr ''a00000000000000000000001''"
    by (simp add: request_fields hexObjectId_alice)
  note again = createCollection_rejects
      [where ObjectId = hexObjectId and uploadImage = uploadByName and s = gallery
         and a = request, THEN conjunct1, rule_format, OF first]
  note named = createCollection_rejects
      [where ObjectId = hexObjectId and uploadImage = uploadByName and s = gallery
         and a = "request\<lparr>i_name := Some ''Art''\<rparr>", THEN conjunct2, THEN conjunct1,
       rule_format, OF taken, THEN conjunct2]
  note invalid = createCollection_rejects
      [where ObjectId = hexObjectId and uploadImage = uploadByName and s = gallery
         and a = "request\<lparr>i_name := Some ''''\<rparr>", THEN conjunct2, THEN conjunct2,
       rule_format, OF empty, THEN conjunct2]
  from invalid have calls: "dbcalls (createCollection hexObjectId uploadByName (Some gallery)
        (request\<lparr>i_name := Some ''''\<rparr>)) = [FindOne Person]"
    by (simp only: parse sum.case)
  from again named invalid [THEN conjunct1] calls show ?thesis
    by (intro conjI)
qed

subsection \<open>C10: the contract of other blockchains\<close>




end
